theory Spec2Isabelle
  imports Main
begin

section \<open>The browser connector of src/platform-connectors/browser-twitter-connector.ts\<close>

text \<open>
  The class \<^verbatim>\<open>BrowserTwitterConnector\<close> drives a puppeteer browser.  Its methods are
  embedded as functions over two pieces of state:
  \<^item> the connector object itself (record \<open>connector\<close>: the fields \<^verbatim>\<open>config\<close>,
    \<^verbatim>\<open>agent\<close>, \<^verbatim>\<open>swarm\<close>, \<^verbatim>\<open>browser\<close>, \<^verbatim>\<open>page\<close>, \<^verbatim>\<open>connected\<close>,
    \<^verbatim>\<open>monitorInterval\<close>);
  \<^item> the outside world (record \<open>ext\<close>): the list of calls made to the browser dependency
    so far, oldest first, and the warnings and errors handed to the logger.

  The browser dependency is a parameter (record \<open>driver\<close>): for every call it says, from
  the calls made before, whether the awaited promise rejects (\<open>Inl message\<close>) or what it
  resolves to.  A theorem that holds for every driver holds for every behaviour of the
  browser.  Every \<^verbatim>\<open>await\<close> of a puppeteer call may reject; an exception is a value
  \<open>Inl e\<close> of the result.  Fixed delays (\<^verbatim>\<open>setTimeout\<close>) and the logger's debug and info
  lines have no counterpart in the model.  Numbers are integers (the poll interval) or
  natural numbers (the clock, in milliseconds); an optional field is an \<open>option\<close>, with
  \<open>None\<close> for \<^verbatim>\<open>undefined\<close>.
\<close>

subsection \<open>Errors, calls, the driver\<close>

text \<open>
  The source throws plain \<^verbatim>\<open>Error\<close> objects only.  \<open>Error m\<close> is an object made by
  \<^verbatim>\<open>new Error(m)\<close> in the connector; \<open>BrowserError m\<close> is whatever a rejected puppeteer
  call threw, with message \<open>m\<close>.  The kinds of error the specification names are
  told apart by the message alone:
  \<^item> ConfigurationError: \<^verbatim>\<open>'Twitter username and password are required'\<close>;
  \<^item> AuthenticationError: \<^verbatim>\<open>'Twitter login failed: '\<close> followed by the message of the step
    that failed;
  \<^item> NotConnectedError: \<^verbatim>\<open>'Not connected to Twitter'\<close>;
  \<^item> ComposerNotFoundError: \<^verbatim>\<open>'Could not find or use the tweet composer'\<close>.
\<close>

datatype error = Error string | BrowserError string

fun message :: "error \<Rightarrow> string" where
  "message (Error m) = m"
| "message (BrowserError m) = m"

text \<open>Browser, page and element handles are numbers handed out by the driver.\<close>

datatype call =
    Launch "bool option"
  | NewPage nat
  | SetViewport nat
  | SetUserAgent nat
  | Goto nat string
  | Screenshot nat string
  | WaitForSelector nat string
  | PageType nat string string
  | Query nat string
  | QueryAll nat string
  | TextContent nat nat
  | IsDisabled nat nat
  | DomScanClick nat
  | Click nat
  | ElemType nat string
  | KeyboardPress nat string
  | KeyboardType nat string
  | WaitForNavigation nat
  | Url nat
  | Close nat

datatype logEntry = Warn string | Err string error

record ext =
  calls :: "call list"
  logs :: "logEntry list"

record driver =
  onUnit :: "call list \<Rightarrow> call \<Rightarrow> string + unit"
  onHandle :: "call list \<Rightarrow> call \<Rightarrow> string + nat"
  onElement :: "call list \<Rightarrow> call \<Rightarrow> string + nat option"
  onElements :: "call list \<Rightarrow> call \<Rightarrow> string + nat list"
  onText :: "call list \<Rightarrow> call \<Rightarrow> string + string option"
  onBool :: "call list \<Rightarrow> call \<Rightarrow> string + bool"
  onUrl :: "call list \<Rightarrow> call \<Rightarrow> string"
  clock :: "call list \<Rightarrow> nat"

type_synonym 'a io = "ext \<Rightarrow> (error + 'a) \<times> ext"

definition ret :: "'a \<Rightarrow> 'a io" where
  "ret v = (\<lambda>x. (Inr v, x))"

definition throw :: "error \<Rightarrow> 'a io" where
  "throw e = (\<lambda>x. (Inl e, x))"

definition bnd :: "'a io \<Rightarrow> ('a \<Rightarrow> 'b io) \<Rightarrow> 'b io" where
  "bnd m f = (\<lambda>x. case m x of (Inl e, x') \<Rightarrow> (Inl e, x') | (Inr v, x') \<Rightarrow> f v x')"

definition seq :: "'a io \<Rightarrow> 'b io \<Rightarrow> 'b io" where
  "seq m n = bnd m (\<lambda>_. n)"

text \<open>A loop or a guarded block that swallows every exception returns a plain value.\<close>

definition lift :: "(ext \<Rightarrow> 'a \<times> ext) \<Rightarrow> 'a io" where
  "lift f = (\<lambda>x. case f x of (v, x') \<Rightarrow> (Inr v, x'))"

definition request :: "(call list \<Rightarrow> call \<Rightarrow> string + 'a) \<Rightarrow> call \<Rightarrow> 'a io" where
  "request f c = (\<lambda>x.
     (case f (calls x) c of Inl m \<Rightarrow> Inl (BrowserError m) | Inr v \<Rightarrow> Inr v,
      x\<lparr>calls := calls x @ [c]\<rparr>))"

definition warn :: "string \<Rightarrow> unit io" where
  "warn m = (\<lambda>x. (Inr (), x\<lparr>logs := logs x @ [Warn m]\<rparr>))"

definition logError :: "string \<Rightarrow> error \<Rightarrow> ext \<Rightarrow> ext" where
  "logError m e x = x\<lparr>logs := logs x @ [Err m e]\<rparr>"

subsection \<open>JavaScript truthiness and \<^verbatim>\<open>String.prototype.includes\<close>\<close>

definition truthy :: "string option \<Rightarrow> bool" where
  "truthy s = (case s of None \<Rightarrow> False | Some t \<Rightarrow> t \<noteq> [])"

fun startsWith :: "string \<Rightarrow> string \<Rightarrow> bool" where
  "startsWith [] s = True"
| "startsWith (c # cs) [] = False"
| "startsWith (c # cs) (d # ds) = (c = d \<and> startsWith cs ds)"

fun includes_str :: "string \<Rightarrow> string \<Rightarrow> bool" where
  "includes_str sub [] = (sub = [])"
| "includes_str sub (d # ds) = (startsWith sub (d # ds) \<or> includes_str sub ds)"

text \<open>\<^verbatim>\<open>text && pred(text)\<close> for the \<^verbatim>\<open>textContent\<close> of an element, which may be null.\<close>

definition textHas :: "(string \<Rightarrow> bool) \<Rightarrow> string option \<Rightarrow> bool" where
  "textHas pred t = (case t of None \<Rightarrow> False | Some s \<Rightarrow> s \<noteq> [] \<and> pred s)"

subsection \<open>Configuration and the connector object\<close>

record connectorConfig =
  username :: "string option"
  password :: "string option"
  email :: "string option"
  monitorKeywords :: "string list option"
  monitorUsers :: "string list option"
  autoReply :: "bool option"
  pollInterval :: "int option"
  headless :: "bool option"
  debug :: "bool option"

record connector =
  config :: connectorConfig
  agent :: "nat option"
  swarm :: "nat option"
  browser :: "nat option"
  page :: "nat option"
  connected :: bool
  monitorInterval :: "int option"

datatype identity = Agent nat | AgentSwarm nat

text \<open>
  \<^verbatim>\<open>config.pollInterval || 60000\<close>: the left operand when it is truthy (a number other
  than 0; the model's numbers are integers, so NaN does not arise), else 60000.
\<close>

definition orDefault :: "int option \<Rightarrow> int" where
  "orDefault v = (case v of None \<Rightarrow> 60000 | Some n \<Rightarrow> if n = 0 then 60000 else n)"

definition constructor :: "connectorConfig \<Rightarrow> connector" where
  "constructor cfg =
     \<lparr>config = cfg\<lparr>pollInterval := Some (orDefault (pollInterval cfg)),
                     headless := Some (headless cfg \<noteq> Some False)\<rparr>,
      agent = None, swarm = None, browser = None, page = None,
      connected = False, monitorInterval = None\<rparr>"

text \<open>
  \<^verbatim>\<open>setupMonitoring\<close>: clears a running timer and arms a new one; the field holds the
  interval the running timer was armed with.
\<close>

definition setupMonitoring :: "connector \<Rightarrow> connector" where
  "setupMonitoring c = c\<lparr>monitorInterval := Some (orDefault (pollInterval (config c)))\<rparr>"

definition nonEmpty :: "string list option \<Rightarrow> bool" where
  "nonEmpty l = (case l of None \<Rightarrow> False | Some xs \<Rightarrow> xs \<noteq> [])"

definition debugOn :: "connectorConfig \<Rightarrow> bool" where
  "debugOn cfg = (debug cfg = Some True)"

text \<open>\<^verbatim>\<open>if (this.config.debug) await this.page.screenshot({ path })\<close>\<close>

definition debugShot :: "driver \<Rightarrow> connectorConfig \<Rightarrow> nat \<Rightarrow> string \<Rightarrow> unit io" where
  "debugShot D cfg p path =
     (if debugOn cfg then request (onUnit D) (Screenshot p path) else ret ())"

definition catch :: "'a io \<Rightarrow> (error \<Rightarrow> 'a io) \<Rightarrow> 'a io" where
  "catch m h = (\<lambda>x. case m x of (Inl e, x') \<Rightarrow> h e x' | (Inr v, x') \<Rightarrow> (Inr v, x'))"

definition logErr :: "string \<Rightarrow> error \<Rightarrow> unit io" where
  "logErr m e = (\<lambda>x. (Inr (), logError m e x))"

subsection \<open>Scanning buttons by their text\<close>

text \<open>
  One round of the loops \<^verbatim>\<open>for (const button of buttons) { try { ... } catch { continue } }\<close>:
  read the text of the element; when it matches, optionally ask whether the element is
  disabled (\<open>chk\<close>), and click it.  \<open>Inr True\<close> is the \<^verbatim>\<open>break\<close> after a click.
\<close>

definition tryButton :: "driver \<Rightarrow> nat \<Rightarrow> (string \<Rightarrow> bool) \<Rightarrow> bool \<Rightarrow> nat \<Rightarrow> bool io" where
  "tryButton D p pred chk b =
     bnd (request (onText D) (TextContent p b)) (\<lambda>t.
       if textHas pred t then
         (if chk then
            bnd (request (onBool D) (IsDisabled p b)) (\<lambda>d.
              if d then ret False else seq (request (onUnit D) (Click b)) (ret True))
          else seq (request (onUnit D) (Click b)) (ret True))
       else ret False)"

text \<open>
  The loops \<^verbatim>\<open>for (const a of candidates) { try { ... found = true; break; } catch { } }\<close>:
  the candidates in order; a round that throws or finds nothing goes on to the next
  candidate, the first round that succeeds ends the loop.  The loop itself never throws.
\<close>

fun firstThat :: "('a \<Rightarrow> bool io) \<Rightarrow> 'a list \<Rightarrow> ext \<Rightarrow> bool \<times> ext" where
  "firstThat step [] x = (False, x)"
| "firstThat step (a # as) x =
     (case step a x of
        (Inr True, x') \<Rightarrow> (True, x')
      | (Inr False, x') \<Rightarrow> firstThat step as x'
      | (Inl e, x') \<Rightarrow> firstThat step as x')"

definition scanByText :: "driver \<Rightarrow> nat \<Rightarrow> (string \<Rightarrow> bool) \<Rightarrow> bool \<Rightarrow> nat list \<Rightarrow> ext \<Rightarrow> bool \<times> ext" where
  "scanByText D p pred chk bs = firstThat (tryButton D p pred chk) bs"

text \<open>A \<^verbatim>\<open>try\<close> block around a search whose \<^verbatim>\<open>catch\<close> only logs: a rejection means not found.\<close>

definition swallow :: "bool io \<Rightarrow> ext \<Rightarrow> bool \<times> ext" where
  "swallow m = (\<lambda>x. case m x of (Inl e, x') \<Rightarrow> (False, x') | (Inr v, x') \<Rightarrow> (v, x'))"

subsection \<open>The login procedure (\<^verbatim>\<open>browserLogin\<close>)\<close>

definition roleButton :: string where
  \<open>roleButton = ''[role="button"]''\<close>

definition usernameInput :: string where
  \<open>usernameInput = ''input[autocomplete="username"]''\<close>

definition passwordInput :: string where
  \<open>passwordInput = ''input[name="password"]''\<close>

definition verifyInputSelector :: string where
  \<open>verifyInputSelector = ''input[data-testid="ocfEnterTextTextInput"]''\<close>

definition successIndicators :: "string list" where
  \<open>successIndicators =
     [''[data-testid="primaryColumn"]'',
      ''[aria-label="Home timeline"]'',
      ''[aria-label="Timeline: Home"]'',
      ''[data-testid="SideNav_NewTweet_Button"]'']\<close>

definition isNext :: "string \<Rightarrow> bool" where
  "isNext t = includes_str ''Next'' t"

definition isLogIn :: "string \<Rightarrow> bool" where
  "isLogIn t = (includes_str ''Log in'' t \<or> includes_str ''Sign in'' t)"

text \<open>
  The pattern of lines 174-194, 213-233 and 247-267: query every element with button role,
  click the first whose text matches, else warn and press Enter.  The query is outside
  the inner \<^verbatim>\<open>try\<close>, so its rejection propagates.
\<close>

definition clickOrEnter :: "driver \<Rightarrow> nat \<Rightarrow> (string \<Rightarrow> bool) \<Rightarrow> string \<Rightarrow> unit io" where
  "clickOrEnter D p pred msg =
     bnd (request (onElements D) (QueryAll p roleButton)) (\<lambda>bs.
     bnd (lift (scanByText D p pred False bs)) (\<lambda>clicked.
       if \<not> clicked then seq (warn msg) (request (onUnit D) (KeyboardPress p ''Enter''))
       else ret ()))"

definition navigateLogin :: "driver \<Rightarrow> connectorConfig \<Rightarrow> nat \<Rightarrow> unit io" where
  "navigateLogin D cfg p =
     seq (request (onUnit D) (Goto p ''https://twitter.com/i/flow/login''))
         (debugShot D cfg p ''twitter-login.png'')"

definition enterUsername :: "driver \<Rightarrow> nat \<Rightarrow> string \<Rightarrow> unit io" where
  "enterUsername D p u =
     seq (request (onUnit D) (WaitForSelector p usernameInput))
         (request (onUnit D) (PageType p usernameInput u))"

definition emailVerification :: "driver \<Rightarrow> nat \<Rightarrow> string \<Rightarrow> unit io" where
  "emailVerification D p em =
     bnd (request (onElement D) (Query p verifyInputSelector)) (\<lambda>v.
       case v of
         None \<Rightarrow> ret ()
       | Some vi \<Rightarrow>
           if em = [] then throw (Error ''Email verification required but no email provided'')
           else seq (request (onUnit D) (ElemType vi em))
                    (clickOrEnter D p isNext
                       ''Could not find verification Next button, trying to press Enter''))"

definition enterPassword :: "driver \<Rightarrow> nat \<Rightarrow> string \<Rightarrow> unit io" where
  "enterPassword D p pw =
     seq (request (onUnit D) (WaitForSelector p passwordInput))
         (request (onUnit D) (PageType p passwordInput pw))"

definition awaitNavigation :: "driver \<Rightarrow> connectorConfig \<Rightarrow> nat \<Rightarrow> unit io" where
  "awaitNavigation D cfg p =
     seq (request (onUnit D) (WaitForNavigation p))
         (debugShot D cfg p ''twitter-logged-in.png'')"

text \<open>
  Lines 286-298: the success indicators in order; a query that rejects counts as no match
  (the \<^verbatim>\<open>catch\<close> is empty), the first element found ends the loop.
\<close>

definition hasElement :: "driver \<Rightarrow> nat \<Rightarrow> string \<Rightarrow> bool io" where
  "hasElement D p sel = bnd (request (onElement D) (Query p sel)) (\<lambda>el. ret (el \<noteq> None))"

definition findIndicator :: "driver \<Rightarrow> nat \<Rightarrow> string list \<Rightarrow> ext \<Rightarrow> bool \<times> ext" where
  "findIndicator D p sels = firstThat (hasElement D p) sels"

text \<open>\<^verbatim>\<open>this.page.url()\<close> is synchronous and does not throw.\<close>

definition currentUrl :: "driver \<Rightarrow> nat \<Rightarrow> string io" where
  "currentUrl D p = (\<lambda>x. (Inr (onUrl D (calls x) (Url p)), x\<lparr>calls := calls x @ [Url p]\<rparr>))"

definition verifySuccess :: "driver \<Rightarrow> nat \<Rightarrow> unit io" where
  "verifySuccess D p =
     bnd (lift (findIndicator D p successIndicators)) (\<lambda>loginSuccessful.
       if \<not> loginSuccessful then
         seq (warn ''Could not verify successful login by finding timeline elements'')
          (bnd (currentUrl D p) (\<lambda>u.
             if includes_str ''login'' u \<or> includes_str ''signin'' u
             then throw (Error ''Login failed - still on login page'')
             else ret ()))
       else ret ())"

definition navigateHome :: "driver \<Rightarrow> nat \<Rightarrow> unit io" where
  "navigateHome D p = request (onUnit D) (Goto p ''https://twitter.com/home'')"

text \<open>Lines 154-276: everything the \<^verbatim>\<open>try\<close> block does before the verification.\<close>

definition beforeVerify ::
    "driver \<Rightarrow> connectorConfig \<Rightarrow> nat \<Rightarrow> string \<Rightarrow> string \<Rightarrow> string \<Rightarrow> unit io" where
  "beforeVerify D cfg p u pw em =
     seq (navigateLogin D cfg p)
    (seq (enterUsername D p u)
    (seq (clickOrEnter D p isNext ''Could not find Next button, trying to press Enter'')
    (seq (emailVerification D p em)
    (seq (enterPassword D p pw)
    (seq (clickOrEnter D p isLogIn ''Could not find Log in button, trying to press Enter'')
         (awaitNavigation D cfg p))))))"

definition loginSteps ::
    "driver \<Rightarrow> connectorConfig \<Rightarrow> nat \<Rightarrow> string \<Rightarrow> string \<Rightarrow> string \<Rightarrow> unit io" where
  "loginSteps D cfg p u pw em =
     seq (beforeVerify D cfg p u pw em) (seq (verifySuccess D p) (navigateHome D p))"

text \<open>
  The \<^verbatim>\<open>catch\<close> of lines 316-323 logs, takes a screenshot when debugging (an await that
  may itself reject) and throws a new error that wraps the message.
\<close>

definition loginFailed :: "driver \<Rightarrow> connectorConfig \<Rightarrow> nat \<Rightarrow> error \<Rightarrow> unit io" where
  "loginFailed D cfg p e =
     seq (logErr ''Error during Twitter login'' e)
    (seq (debugShot D cfg p ''twitter-login-error.png'')
         (throw (Error (''Twitter login failed: '' @ message e))))"

definition browserLogin ::
    "driver \<Rightarrow> connectorConfig \<Rightarrow> nat option \<Rightarrow> string \<Rightarrow> string \<Rightarrow> string \<Rightarrow> unit io" where
  "browserLogin D cfg pg u pw em =
     (case pg of
        None \<Rightarrow> throw (Error ''Browser not initialized'')
      | Some p \<Rightarrow> catch (loginSteps D cfg p u pw em) (loginFailed D cfg p))"

subsection \<open>\<^verbatim>\<open>connect\<close> and \<^verbatim>\<open>disconnect\<close>\<close>

text \<open>\<^verbatim>\<open>await this.browser.close().catch(e => this.logger.error('Error closing browser', e))\<close>\<close>

definition closeQuietly :: "driver \<Rightarrow> nat \<Rightarrow> ext \<Rightarrow> ext" where
  "closeQuietly D b x =
     (case request (onUnit D) (Close b) x of
        (Inl ce, x') \<Rightarrow> logError ''Error closing browser'' ce x'
      | (Inr u, x') \<Rightarrow> x')"

definition setIdentity :: "identity \<Rightarrow> connector \<Rightarrow> connector" where
  "setIdentity a c =
     (case a of
        Agent n \<Rightarrow> c\<lparr>agent := Some n, swarm := None\<rparr>
      | AgentSwarm n \<Rightarrow> c\<lparr>swarm := Some n, agent := None\<rparr>)"

text \<open>\<^verbatim>\<open>!username || !password\<close>: a credential that is absent or the empty string.\<close>

definition lacksCredentials :: "connectorConfig \<Rightarrow> bool" where
  "lacksCredentials cfg = (\<not> truthy (username cfg) \<or> \<not> truthy (password cfg))"

text \<open>
  The \<^verbatim>\<open>try\<close> block of \<^verbatim>\<open>connect\<close> (lines 94-126).  The fields \<^verbatim>\<open>browser\<close> and
  \<^verbatim>\<open>page\<close> are assigned as soon as the launch and the page creation resolve, so the
  connector is returned as it stands when an exception leaves the block.
\<close>

definition connectBody :: "driver \<Rightarrow> connector \<Rightarrow> ext \<Rightarrow> (error + unit) \<times> connector \<times> ext" where
  "connectBody D c x =
     (let cfg = config c in
      if lacksCredentials cfg
      then (Inl (Error ''Twitter username and password are required''), c, x)
      else
        case request (onHandle D) (Launch (headless cfg)) x of
          (Inl e, x1) \<Rightarrow> (Inl e, c, x1)
        | (Inr b, x1) \<Rightarrow>
           (case request (onHandle D) (NewPage b) x1 of
              (Inl e, x2) \<Rightarrow> (Inl e, c\<lparr>browser := Some b\<rparr>, x2)
            | (Inr p, x2) \<Rightarrow>
               (case seq (request (onUnit D) (SetViewport p))
                    (seq (request (onUnit D) (SetUserAgent p))
                         (browserLogin D cfg (Some p)
                            (case username cfg of None \<Rightarrow> [] | Some u \<Rightarrow> u)
                            (case password cfg of None \<Rightarrow> [] | Some w \<Rightarrow> w)
                            (case email cfg of None \<Rightarrow> [] | Some m \<Rightarrow> m))) x2 of
                  (Inl e, x3) \<Rightarrow> (Inl e, c\<lparr>browser := Some b, page := Some p\<rparr>, x3)
                | (Inr u, x3) \<Rightarrow>
                   (Inr (),
                    (if nonEmpty (monitorKeywords cfg) \<or> nonEmpty (monitorUsers cfg)
                     then setupMonitoring (c\<lparr>browser := Some b, page := Some p, connected := True\<rparr>)
                     else c\<lparr>browser := Some b, page := Some p, connected := True\<rparr>),
                    x3))))"

text \<open>The \<^verbatim>\<open>catch\<close> of \<^verbatim>\<open>connect\<close> (lines 127-138).\<close>

definition connectFailed ::
    "driver \<Rightarrow> error \<Rightarrow> connector \<Rightarrow> ext \<Rightarrow> (error + unit) \<times> connector \<times> ext" where
  "connectFailed D e c x =
     (case browser c of
        None \<Rightarrow> (Inl e, c, logError ''Failed to connect to Twitter'' e x)
      | Some b \<Rightarrow>
          (Inl e, c\<lparr>browser := None, page := None\<rparr>,
           closeQuietly D b (logError ''Failed to connect to Twitter'' e x)))"

definition connect ::
    "driver \<Rightarrow> identity \<Rightarrow> connector \<Rightarrow> ext \<Rightarrow> (error + unit) \<times> connector \<times> ext" where
  "connect D a c x =
     (case connectBody D (setIdentity a c) x of
        (Inl e, c1, x1) \<Rightarrow> connectFailed D e c1 x1
      | (Inr u, c1, x1) \<Rightarrow> (Inr (), c1, x1))"

text \<open>
  \<^verbatim>\<open>disconnect\<close> (lines 331-359).  Nothing inside its \<^verbatim>\<open>try\<close> can throw (the close has
  its own handler), so the result is always a normal return.
\<close>

definition disconnect :: "driver \<Rightarrow> connector \<Rightarrow> ext \<Rightarrow> (error + unit) \<times> connector \<times> ext" where
  "disconnect D c x =
     (if \<not> connected c then (Inr (), c, x)
      else
        case browser c of
          None \<Rightarrow> (Inr (), c\<lparr>monitorInterval := None, connected := False\<rparr>, x)
        | Some b \<Rightarrow>
            (Inr (),
             c\<lparr>monitorInterval := None, browser := None, page := None, connected := False\<rparr>,
             closeQuietly D b x))"

subsection \<open>Posting (\<^verbatim>\<open>postTweetWithBrowser\<close>)\<close>

definition composeSelectors :: "string list" where
  \<open>composeSelectors =
     [''[data-testid="SideNav_NewTweet_Button"]'',
      ''[aria-label="Tweet"]'',
      ''[aria-label="Post"]'',
      ''a[href="/compose/tweet"]'']\<close>

definition textareaSelectors :: "string list" where
  \<open>textareaSelectors =
     [''[data-testid="tweetTextarea_0"]'',
      ''[aria-label="Tweet text"]'',
      ''[aria-label="Post text"]'',
      ''[role="textbox"]'']\<close>

definition tweetButtonSelectors :: "string list" where
  \<open>tweetButtonSelectors =
     [''[data-testid="tweetButtonInline"]'',
      ''div[data-testid="tweetButton"]'',
      ''button[data-testid="tweetButton"]'',
      ''[aria-label="Tweet"]'',
      ''[aria-label="Post"]'',
      ''div[role="button"]:has-text("Tweet")'',
      ''div[role="button"]:has-text("Post")'',
      ''button:enabled:has-text("Post")'',
      ''button:enabled:has-text("Tweet")'']\<close>

definition buttonLike :: string where
  \<open>buttonLike = ''button, div[role="button"]''\<close>

definition isPlaceholder :: "string \<Rightarrow> bool" where
  "isPlaceholder t =
     (includes_str ''What's happening?'' t \<or> includes_str ''What is happening?'' t
      \<or> includes_str ''What's on your mind?'' t)"

definition isTweetOrPost :: "string \<Rightarrow> bool" where
  "isTweetOrPost t = (includes_str ''Tweet'' t \<or> includes_str ''Post'' t)"

text \<open>A round of the loops over selectors that click the element found (441-455, 742-756).\<close>

definition tryClick :: "driver \<Rightarrow> nat \<Rightarrow> string \<Rightarrow> bool io" where
  "tryClick D p sel =
     bnd (request (onElement D) (Query p sel)) (\<lambda>b.
       case b of
         None \<Rightarrow> ret False
       | Some el \<Rightarrow> seq (request (onUnit D) (Click el)) (ret True))"

text \<open>A round of the loops that type into the text area found (468-486, 535-550, 772-787).\<close>

definition tryType :: "driver \<Rightarrow> nat \<Rightarrow> string \<Rightarrow> string \<Rightarrow> bool io" where
  "tryType D p content sel =
     bnd (request (onElement D) (Query p sel)) (\<lambda>t.
       case t of
         None \<Rightarrow> ret False
       | Some el \<Rightarrow>
           seq (request (onUnit D) (Click el))
          (seq (request (onUnit D) (ElemType el content)) (ret True)))"

text \<open>
  A round of the loops over the submit selectors (583-612, 815-841): a disabled element
  is passed over (\<^verbatim>\<open>continue\<close>).
\<close>

definition tryEnabled :: "driver \<Rightarrow> nat \<Rightarrow> string \<Rightarrow> bool io" where
  "tryEnabled D p sel =
     bnd (request (onElement D) (Query p sel)) (\<lambda>b.
       case b of
         None \<Rightarrow> ret False
       | Some el \<Rightarrow>
           bnd (request (onBool D) (IsDisabled p el)) (\<lambda>d.
             if d then ret False else seq (request (onUnit D) (Click el)) (ret True)))"

text \<open>
  Lines 489-521: the placeholder scan.  Its loop has no \<^verbatim>\<open>try\<close> of its own, so the first
  rejection ends the whole scan (the outer \<^verbatim>\<open>catch\<close> logs it).
\<close>

fun placeholderLoop :: "driver \<Rightarrow> nat \<Rightarrow> string \<Rightarrow> nat list \<Rightarrow> ext \<Rightarrow> (error + bool) \<times> ext" where
  "placeholderLoop D p content [] x = (Inr False, x)"
| "placeholderLoop D p content (d # ds) x =
     (case request (onText D) (TextContent p d) x of
        (Inl e, x') \<Rightarrow> (Inl e, x')
      | (Inr t, x') \<Rightarrow>
          if textHas isPlaceholder t then
            seq (request (onUnit D) (Click d))
           (seq (request (onUnit D) (KeyboardType p content)) (ret True)) x'
          else placeholderLoop D p content ds x')"

definition placeholderScan :: "driver \<Rightarrow> nat \<Rightarrow> string \<Rightarrow> ext \<Rightarrow> bool \<times> ext" where
  "placeholderScan D p content =
     swallow (bnd (request (onElements D) (QueryAll p ''div'')) (placeholderLoop D p content))"

text \<open>Lines 524-551: direct navigation to the compose page, then the selector list again.\<close>

definition directCompose :: "driver \<Rightarrow> connectorConfig \<Rightarrow> nat \<Rightarrow> string \<Rightarrow> bool io" where
  "directCompose D cfg p content =
     seq (request (onUnit D) (Goto p ''https://twitter.com/compose/tweet''))
    (seq (debugShot D cfg p ''twitter-compose-direct.png'')
         (lift (firstThat (tryType D p content) textareaSelectors)))"

text \<open>Lines 457-551: the value of \<^verbatim>\<open>composerFound\<close> when line 554 is reached.\<close>

definition locateComposer :: "driver \<Rightarrow> connectorConfig \<Rightarrow> nat \<Rightarrow> string \<Rightarrow> bool io" where
  "locateComposer D cfg p content =
     bnd (lift (firstThat (tryType D p content) textareaSelectors)) (\<lambda>found1.
     bnd (if \<not> found1 then lift (placeholderScan D p content) else ret found1) (\<lambda>found2.
       if \<not> found2 then directCompose D cfg p content else ret found2))"

text \<open>Lines 615-653 and 844-868: the scan of button-like elements by text.\<close>

definition textScan :: "driver \<Rightarrow> nat \<Rightarrow> (string \<Rightarrow> bool) \<Rightarrow> bool \<Rightarrow> ext \<Rightarrow> bool \<times> ext" where
  "textScan D p pred chk =
     swallow (bnd (request (onElements D) (QueryAll p buttonLike)) (\<lambda>bs.
                lift (scanByText D p pred chk bs)))"

text \<open>Lines 657-686: one script evaluated in the page that scans and clicks; it says whether it clicked.\<close>

definition domScan :: "driver \<Rightarrow> nat \<Rightarrow> ext \<Rightarrow> bool \<times> ext" where
  "domScan D p = swallow (request (onBool D) (DomScanClick p))"

text \<open>Lines 567-693: the submit stage of a new post.\<close>

definition submitTweet :: "driver \<Rightarrow> nat \<Rightarrow> bool io" where
  "submitTweet D p =
     bnd (lift (firstThat (tryEnabled D p) tweetButtonSelectors)) (\<lambda>clicked1.
     bnd (if \<not> clicked1 then lift (textScan D p isTweetOrPost True) else ret clicked1) (\<lambda>clicked2.
     bnd (if \<not> clicked2 then lift (domScan D p) else ret clicked2) (\<lambda>clicked3.
       if \<not> clicked3 then seq (request (onUnit D) (KeyboardPress p ''Enter'')) (ret True)
       else ret clicked3)))"

text \<open>Lines 421-455: the home page and the compose button (whether it was clicked is not used).\<close>

definition openHome :: "driver \<Rightarrow> connectorConfig \<Rightarrow> nat \<Rightarrow> bool io" where
  "openHome D cfg p =
     seq (request (onUnit D) (Goto p ''https://twitter.com/home''))
    (seq (debugShot D cfg p ''twitter-home-before-tweet.png'')
         (lift (firstThat (tryClick D p) composeSelectors)))"

text \<open>Lines 553-703: what follows the search for the composer.\<close>

definition afterComposer :: "driver \<Rightarrow> connectorConfig \<Rightarrow> nat \<Rightarrow> bool \<Rightarrow> unit io" where
  "afterComposer D cfg p composerFound =
     (if \<not> composerFound then
        seq (debugShot D cfg p ''twitter-composer-not-found.png'')
            (throw (Error ''Could not find or use the tweet composer''))
      else
        seq (debugShot D cfg p ''twitter-composed-tweet.png'')
       (seq (submitTweet D p)
            (debugShot D cfg p ''twitter-after-posting.png'')))"

definition rethrowLogged :: "string \<Rightarrow> 'a io \<Rightarrow> 'a io" where
  "rethrowLogged m body = catch body (\<lambda>e. seq (logErr m e) (throw e))"

definition postTweetWithBrowser :: "driver \<Rightarrow> connectorConfig \<Rightarrow> nat option \<Rightarrow> string \<Rightarrow> unit io" where
  "postTweetWithBrowser D cfg pg content =
     (case pg of
        None \<Rightarrow> throw (Error ''Browser not initialized'')
      | Some p \<Rightarrow>
          rethrowLogged ''Error posting tweet with browser''
            (seq (openHome D cfg p)
                 (bnd (locateComposer D cfg p content) (afterComposer D cfg p))))"

subsection \<open>Replying (\<^verbatim>\<open>postReplyWithBrowser\<close>)\<close>

definition replyButtonSelectors :: "string list" where
  \<open>replyButtonSelectors =
     [''[data-testid="reply"]'',
      ''[aria-label="Reply"]'',
      ''div[role="button"][data-testid="reply"]'']\<close>

definition replyTextareaSelectors :: "string list" where
  \<open>replyTextareaSelectors =
     [''[data-testid="tweetTextarea_0"]'',
      ''[aria-label="Tweet text"]'',
      ''[aria-label="Reply text"]'',
      ''[role="textbox"]'']\<close>

definition replyTweetButtonSelectors :: "string list" where
  \<open>replyTweetButtonSelectors =
     [''[data-testid="tweetButtonInline"]'',
      ''[data-testid="tweetButton"]'',
      ''div[role="button"]:has-text("Reply")'',
      ''div[role="button"]:has-text("Tweet")'']\<close>

definition isReplyOrTweet :: "string \<Rightarrow> bool" where
  "isReplyOrTweet t = (includes_str ''Reply'' t \<or> includes_str ''Tweet'' t)"

text \<open>Lines 724-760: the page of the post and its reply button.\<close>

definition openReply :: "driver \<Rightarrow> connectorConfig \<Rightarrow> nat \<Rightarrow> string \<Rightarrow> unit io" where
  "openReply D cfg p tweetId =
     seq (request (onUnit D) (Goto p (''https://twitter.com/i/status/'' @ tweetId)))
    (seq (debugShot D cfg p ''twitter-reply-page.png'')
    (bnd (lift (firstThat (tryClick D p) replyButtonSelectors)) (\<lambda>replyButtonClicked.
       if \<not> replyButtonClicked then throw (Error ''Could not find or click reply button'')
       else ret ())))"

text \<open>Lines 762-794: the value of \<^verbatim>\<open>textareaFound\<close> when line 796 is reached.\<close>

definition replyComposer :: "driver \<Rightarrow> nat \<Rightarrow> string \<Rightarrow> bool io" where
  "replyComposer D p content =
     bnd (lift (firstThat (tryType D p content) replyTextareaSelectors)) (\<lambda>textareaFound.
       if \<not> textareaFound then seq (request (onUnit D) (KeyboardType p content)) (ret True)
       else ret textareaFound)"

text \<open>Lines 805-875: the submit stage of a reply.\<close>

definition submitReply :: "driver \<Rightarrow> nat \<Rightarrow> bool io" where
  "submitReply D p =
     bnd (lift (firstThat (tryEnabled D p) replyTweetButtonSelectors)) (\<lambda>clicked1.
     bnd (if \<not> clicked1 then lift (textScan D p isReplyOrTweet False) else ret clicked1) (\<lambda>clicked2.
       if \<not> clicked2 then seq (request (onUnit D) (KeyboardPress p ''Enter'')) (ret True)
       else ret clicked2))"

text \<open>Lines 796-885: what follows the search for the reply text area.\<close>

definition afterReplyComposer :: "driver \<Rightarrow> connectorConfig \<Rightarrow> nat \<Rightarrow> bool \<Rightarrow> unit io" where
  "afterReplyComposer D cfg p textareaFound =
     (if \<not> textareaFound then throw (Error ''Could not find or use reply textarea'')
      else
        seq (debugShot D cfg p ''twitter-reply-composed.png'')
       (seq (submitReply D p)
            (debugShot D cfg p ''twitter-after-reply.png'')))"

definition postReplyWithBrowser ::
    "driver \<Rightarrow> connectorConfig \<Rightarrow> nat option \<Rightarrow> string \<Rightarrow> string \<Rightarrow> unit io" where
  "postReplyWithBrowser D cfg pg content tweetId =
     (case pg of
        None \<Rightarrow> throw (Error ''Browser not initialized'')
      | Some p \<Rightarrow>
          rethrowLogged ''Error posting reply with browser''
            (seq (openReply D cfg p tweetId)
                 (bnd (replyComposer D p content) (afterReplyComposer D cfg p))))"

subsection \<open>\<^verbatim>\<open>tweet\<close>\<close>

text \<open>The decimal digits of a number, as a template literal prints \<^verbatim>\<open>Date.now()\<close>.\<close>

definition digitChar :: "nat \<Rightarrow> char" where
  "digitChar d = ''0123456789'' ! d"

fun decimal :: "nat \<Rightarrow> string" where
  "decimal n = (if n < 10 then [digitChar n] else decimal (n div 10) @ [digitChar (n mod 10)])"

definition successShot :: "driver \<Rightarrow> connector \<Rightarrow> unit io" where
  "successShot D c =
     (case page c of
        None \<Rightarrow> ret ()
      | Some p \<Rightarrow> debugShot D (config c) p ''twitter-tweet-success.png'')"

text \<open>
  The \<^verbatim>\<open>try\<close> block of \<^verbatim>\<open>tweet\<close> (lines 379-398); \<open>tweetId\<close> is the default identifier
  computed on its first line.  \<^verbatim>\<open>if (replyToId)\<close> is true for a string that is not empty.
\<close>

definition tweetBody :: "driver \<Rightarrow> connector \<Rightarrow> string \<Rightarrow> string option \<Rightarrow> string \<Rightarrow> string io" where
  "tweetBody D c content replyToId tweetId =
     (case replyToId of
        Some r \<Rightarrow>
          if r \<noteq> [] then
            seq (postReplyWithBrowser D (config c) (page c) content r)
                (ret (''reply_to_'' @ r @ ''_posted''))
          else
            seq (postTweetWithBrowser D (config c) (page c) content)
                (seq (successShot D c) (ret tweetId))
      | None \<Rightarrow>
          seq (postTweetWithBrowser D (config c) (page c) content)
              (seq (successShot D c) (ret tweetId)))"

text \<open>The \<^verbatim>\<open>catch\<close> of \<^verbatim>\<open>tweet\<close> (lines 399-405).\<close>

definition tweetFailed :: "driver \<Rightarrow> connector \<Rightarrow> error \<Rightarrow> string io" where
  "tweetFailed D c e =
     seq (logErr ''Error posting tweet'' e)
    (seq (case page c of
            None \<Rightarrow> ret ()
          | Some p \<Rightarrow> debugShot D (config c) p ''twitter-tweet-error.png'')
         (throw e))"

definition tweet :: "driver \<Rightarrow> connector \<Rightarrow> string \<Rightarrow> string option \<Rightarrow> string io" where
  "tweet D c content replyToId =
     (if \<not> connected c \<or> page c = None \<or> browser c = None
      then throw (Error ''Not connected to Twitter'')
      else (\<lambda>x.
        catch (tweetBody D c content replyToId (''tweet_posted_'' @ decimal (clock D (calls x))))
              (tweetFailed D c) x))"

subsection \<open>The states a connector can be in\<close>

text \<open>
  A connector starts as the constructor builds it and changes through \<^verbatim>\<open>connect\<close> and
  \<^verbatim>\<open>disconnect\<close> only (\<^verbatim>\<open>tweet\<close> assigns no field), whatever the browser does.
\<close>

inductive reachable :: "connector \<Rightarrow> bool" where
  fresh: "reachable (constructor cfg)"
| connected: "reachable c \<Longrightarrow> reachable (fst (snd (connect D a c x)))"
| disconnected: "reachable c \<Longrightarrow> reachable (fst (snd (disconnect D c x)))"

subsection \<open>Browsers and configurations used as examples\<close>

text \<open>A browser in which every call resolves and no element is ever found.\<close>

definition quietDriver :: driver where
  "quietDriver =
     \<lparr>onUnit = (\<lambda>h c. Inr ()),
      onHandle = (\<lambda>h c. Inr (Suc (length h))),
      onElement = (\<lambda>h c. Inr None),
      onElements = (\<lambda>h c. Inr []),
      onText = (\<lambda>h c. Inr None),
      onBool = (\<lambda>h c. Inr False),
      onUrl = (\<lambda>h c. ''https://twitter.com/home''),
      clock = (\<lambda>h. 1700000000000)\<rparr>"

definition credentials :: connectorConfig where
  "credentials =
     \<lparr>username = Some ''bot'', password = Some ''secret'', email = None,
      monitorKeywords = None, monitorUsers = None, autoReply = None,
      pollInterval = None, headless = None, debug = None\<rparr>"

definition noCredentials :: connectorConfig where
  "noCredentials = credentials\<lparr>username := None, password := None\<rparr>"

definition negativePoll :: connectorConfig where
  "negativePoll = credentials\<lparr>pollInterval := Some (- 5)\<rparr>"

definition start :: ext where
  "start = \<lparr>calls = [], logs = []\<rparr>"

text \<open>A browser that cannot be launched.\<close>

definition noLaunch :: driver where
  "noLaunch = quietDriver\<lparr>onHandle := (\<lambda>h c. Inl ''Failed to launch the browser process'')\<rparr>"

text \<open>A browser that can be launched as the very first call only.\<close>

definition launchOnce :: driver where
  "launchOnce =
     quietDriver\<lparr>onHandle := (\<lambda>h c.
       case c of
         Launch f \<Rightarrow> if h = [] then Inr 1 else Inl ''Failed to launch the browser process''
       | _ \<Rightarrow> Inr (Suc (length h)))\<rparr>"

text \<open>The connector and the outside world after a successful \<^verbatim>\<open>connect\<close> in that browser.\<close>

definition online :: connector where
  "online = fst (snd (connect launchOnce (Agent 0) (constructor credentials) start))"

definition onlineExt :: ext where
  "onlineExt = snd (snd (connect launchOnce (Agent 0) (constructor credentials) start))"

text \<open>A browser that stays on the login page and whose close call rejects.\<close>

definition closeFails :: driver where
  "closeFails =
     quietDriver\<lparr>onUrl := (\<lambda>h c. ''https://twitter.com/i/flow/login''),
                 onUnit := (\<lambda>h c. case c of Close b \<Rightarrow> Inl ''Target closed'' | _ \<Rightarrow> Inr ())\<rparr>"

subsection \<open>Calls a procedure may make; the reply path as the specification words it\<close>

text \<open>
  \<open>emits A m\<close>: whatever the state it starts in, \<open>m\<close> only adds calls to the list of
  calls, and every call it adds satisfies \<open>A\<close>.
\<close>

definition emits :: "(call \<Rightarrow> bool) \<Rightarrow> 'a io \<Rightarrow> bool" where
  "emits A m = (\<forall>x. \<exists>cs. calls (snd (m x)) = calls x @ cs \<and> list_all A cs)"

text \<open>
  The calls that belong to strategies of the new-post path alone: the script evaluated in
  the page, the query for every \<^verbatim>\<open>div\<close> of the placeholder scan, and the navigation to
  the compose page.
\<close>

definition newPostOnly :: "call \<Rightarrow> bool" where
  "newPostOnly c =
     (case c of
        DomScanClick p \<Rightarrow> True
      | QueryAll p sel \<Rightarrow> sel = ''div''
      | Goto p url \<Rightarrow> url = ''https://twitter.com/compose/tweet''
      | _ \<Rightarrow> False)"

text \<open>
  The reply path in the specification's words: navigate to the post and click a reply
  trigger, "then repeat the same composer-location and submit-button-location procedure
  as the new-post path".  It is compared with \<open>postReplyWithBrowser\<close>, the reply path of
  the source.
\<close>

definition postReplyAsSpecified ::
    "driver \<Rightarrow> connectorConfig \<Rightarrow> nat option \<Rightarrow> string \<Rightarrow> string \<Rightarrow> unit io" where
  "postReplyAsSpecified D cfg pg content tweetId =
     (case pg of
        None \<Rightarrow> throw (Error ''Browser not initialized'')
      | Some p \<Rightarrow>
          rethrowLogged ''Error posting reply with browser''
            (seq (openReply D cfg p tweetId)
                 (bnd (locateComposer D cfg p content) (afterComposer D cfg p))))"

text \<open>
  The reply path that the corrected statement of C2 describes, written out from the shared steps alone
  (one call of the browser, the debug screenshot, the loop over a list of selectors, the
  scan of button-like elements by text), with every selector list spelled out.

  \<open>fallbacks\<close> runs searches in order and stops at the first that finds something;
  \<open>orElse search lastResort\<close> runs a search and, when it finds nothing, the last resort,
  after which the stage counts as done.
\<close>

fun fallbacks :: "(ext \<Rightarrow> bool \<times> ext) list \<Rightarrow> ext \<Rightarrow> bool \<times> ext" where
  "fallbacks [] x = (False, x)"
| "fallbacks (s # ss) x =
     (case s x of (True, x') \<Rightarrow> (True, x') | (False, x') \<Rightarrow> fallbacks ss x')"

definition orElse :: "(ext \<Rightarrow> bool \<times> ext) \<Rightarrow> unit io \<Rightarrow> bool io" where
  "orElse search lastResort =
     bnd (lift search) (\<lambda>found. if found then ret True else seq lastResort (ret True))"

text \<open>
  The corrected statement says nothing about whether the scan by text skips disabled
  buttons; that is the parameter \<open>scanChecksDisabled\<close>.
\<close>

definition replyPathAmended ::
    "bool \<Rightarrow> driver \<Rightarrow> connectorConfig \<Rightarrow> nat option \<Rightarrow> string \<Rightarrow> string \<Rightarrow> unit io" where
  \<open>replyPathAmended scanChecksDisabled D cfg pg content tweetId =
     (case pg of
        None \<Rightarrow> throw (Error ''Browser not initialized'')
      | Some p \<Rightarrow>
          rethrowLogged ''Error posting reply with browser''
           (seq (request (onUnit D) (Goto p (''https://twitter.com/i/status/'' @ tweetId)))
           (seq (debugShot D cfg p ''twitter-reply-page.png'')
           (bnd (lift (firstThat (tryClick D p)
                        [''[data-testid="reply"]'',
                         ''[aria-label="Reply"]'',
                         ''div[role="button"][data-testid="reply"]'']))
             (\<lambda>triggerClicked.
                if \<not> triggerClicked then throw (Error ''Could not find or click reply button'')
                else
                  seq (orElse
                         (firstThat (tryType D p content)
                            [''[data-testid="tweetTextarea_0"]'',
                             ''[aria-label="Tweet text"]'',
                             ''[aria-label="Reply text"]'',
                             ''[role="textbox"]''])
                         (request (onUnit D) (KeyboardType p content)))
                 (seq (debugShot D cfg p ''twitter-reply-composed.png'')
                 (seq (orElse
                         (fallbacks
                            [firstThat (tryEnabled D p)
                               [''[data-testid="tweetButtonInline"]'',
                                ''[data-testid="tweetButton"]'',
                                ''div[role="button"]:has-text("Reply")'',
                                ''div[role="button"]:has-text("Tweet")''],
                             textScan D p
                               (\<lambda>t. includes_str ''Reply'' t \<or> includes_str ''Tweet'' t)
                               scanChecksDisabled])
                         (request (onUnit D) (KeyboardPress p ''Enter'')))
                      (debugShot D cfg p ''twitter-after-reply.png''))))))))\<close>

text \<open>
  A browser in which the query right after the first navigation finds an element (the
  reply trigger), no other query does, and the only button-like element, 7, reads
  "Tweet" and is disabled.
\<close>

definition disabledButton :: driver where
  "disabledButton =
     quietDriver\<lparr>onElement := (\<lambda>h c. case h of [Goto p u] \<Rightarrow> Inr (Some 3) | _ \<Rightarrow> Inr None),
                 onElements := (\<lambda>h c. Inr [7]),
                 onText := (\<lambda>h c. Inr (Some ''Tweet'')),
                 onBool := (\<lambda>h c. case c of IsDisabled p b \<Rightarrow> Inr True | _ \<Rightarrow> Inr False)\<rparr>"

text \<open>A browser in which every call resolves and every query finds the element 5.\<close>

definition everythingFound :: driver where
  "everythingFound = quietDriver\<lparr>onElement := (\<lambda>h c. Inr (Some 5))\<rparr>"

text \<open>The characters a number is printed with.\<close>

definition isDigit :: "char \<Rightarrow> bool" where
  "isDigit ch = (ch \<in> set ''0123456789'')"

text \<open>The same credentials with \<^verbatim>\<open>debug: true\<close>.\<close>

definition debugging :: connectorConfig where
  "debugging = credentials\<lparr>debug := Some True\<rparr>"

text \<open>
  A browser that stays on the login page and in which the screenshot of the login error
  cannot be written.
\<close>

definition stuckOnLogin :: driver where
  "stuckOnLogin =
     quietDriver\<lparr>onUrl := (\<lambda>h c. ''https://twitter.com/i/flow/login''),
                 onUnit := (\<lambda>h c.
                   case c of
                     Screenshot p path \<Rightarrow>
                       if path = ''twitter-login-error.png''
                       then Inl ''EACCES: permission denied'' else Inr ()
                   | _ \<Rightarrow> Inr ())\<rparr>"

text \<open>
  A browser in which no element is found and the screenshot taken when the composer is
  not found cannot be written.
\<close>

definition composerShotFails :: driver where
  "composerShotFails =
     quietDriver\<lparr>onUnit := (\<lambda>h c.
                   case c of
                     Screenshot p path \<Rightarrow>
                       if path = ''twitter-composer-not-found.png''
                       then Inl ''EACCES: permission denied'' else Inr ()
                   | _ \<Rightarrow> Inr ())\<rparr>"

text \<open>The connector and the outside world after a successful \<^verbatim>\<open>connect\<close> with \<^verbatim>\<open>debug: true\<close>.\<close>

definition onlineDebug :: connector where
  "onlineDebug = fst (snd (connect launchOnce (Agent 0) (constructor debugging) start))"

definition onlineDebugExt :: ext where
  "onlineDebugExt = snd (snd (connect launchOnce (Agent 0) (constructor debugging) start))"

section \<open>Properties\<close>

subsection \<open>Running the model\<close>

lemma ret_apply: "ret v x = (Inr v, x)"
  by (simp add: ret_def)

lemma throw_apply: "throw e x = (Inl e, x)"
  by (simp add: throw_def)

lemma bnd_apply:
  "bnd m f x = (case m x of (Inl e, x') \<Rightarrow> (Inl e, x') | (Inr v, x') \<Rightarrow> f v x')"
  by (simp add: bnd_def)

lemma seq_apply:
  "seq m n x = (case m x of (Inl e, x') \<Rightarrow> (Inl e, x') | (Inr v, x') \<Rightarrow> n x')"
  by (simp add: seq_def bnd_def)

lemma lift_apply: "lift f x = (case f x of (v, x') \<Rightarrow> (Inr v, x'))"
  by (simp add: lift_def)

lemma request_apply:
  "request f c x =
     (case f (calls x) c of Inl m \<Rightarrow> Inl (BrowserError m) | Inr v \<Rightarrow> Inr v,
      x\<lparr>calls := calls x @ [c]\<rparr>)"
  by (simp add: request_def)

lemma warn_apply: "warn m x = (Inr (), x\<lparr>logs := logs x @ [Warn m]\<rparr>)"
  by (simp add: warn_def)

lemma logErr_apply: "logErr m e x = (Inr (), x\<lparr>logs := logs x @ [Err m e]\<rparr>)"
  by (simp add: logErr_def logError_def)

lemma catch_apply:
  "catch m h x = (case m x of (Inl e, x') \<Rightarrow> h e x' | (Inr v, x') \<Rightarrow> (Inr v, x'))"
  by (simp add: catch_def)

lemma swallow_apply:
  "swallow m x = (case m x of (Inl e, x') \<Rightarrow> (False, x') | (Inr v, x') \<Rightarrow> (v, x'))"
  by (simp add: swallow_def)

lemma currentUrl_apply:
  "currentUrl D p x = (Inr (onUrl D (calls x) (Url p)), x\<lparr>calls := calls x @ [Url p]\<rparr>)"
  by (simp add: currentUrl_def)

lemmas run =
  ret_apply throw_apply bnd_apply seq_apply lift_apply request_apply warn_apply logErr_apply
  catch_apply swallow_apply currentUrl_apply logError_def

lemmas login_defs =
  browserLogin_def loginSteps_def beforeVerify_def navigateLogin_def debugShot_def debugOn_def
  enterUsername_def clickOrEnter_def scanByText_def emailVerification_def enterPassword_def
  awaitNavigation_def verifySuccess_def findIndicator_def hasElement_def successIndicators_def
  navigateHome_def loginFailed_def

lemmas connect_defs =
  connect_def connectBody_def connectFailed_def closeQuietly_def setIdentity_def
  lacksCredentials_def truthy_def nonEmpty_def

lemmas post_defs =
  postTweetWithBrowser_def postReplyWithBrowser_def rethrowLogged_def openHome_def
  locateComposer_def directCompose_def placeholderScan_def afterComposer_def submitTweet_def
  textScan_def domScan_def scanByText_def tryButton_def tryClick_def tryType_def tryEnabled_def
  openReply_def replyComposer_def submitReply_def afterReplyComposer_def debugShot_def
  debugOn_def textHas_def isPlaceholder_def isTweetOrPost_def isReplyOrTweet_def
  composeSelectors_def textareaSelectors_def tweetButtonSelectors_def replyButtonSelectors_def
  replyTextareaSelectors_def replyTweetButtonSelectors_def

subsection \<open>C9: \<^verbatim>\<open>tweet\<close> on a connector that is not connected\<close>

text \<open>
  C9.  For every content and every optional parent id, \<^verbatim>\<open>tweet\<close> on a connector whose
  \<^verbatim>\<open>connected\<close> flag is false throws \<^verbatim>\<open>Error('Not connected to Twitter')\<close> (the
  failure the specification calls NotConnectedError) and leaves the outside world as it
  was: no call reaches the browser, a navigation in particular, and nothing is logged.
\<close>

theorem tweet_not_connected:
  "\<not> connected c \<Longrightarrow>
     tweet D c content replyToId x = (Inl (Error ''Not connected to Twitter''), x)"
  by (simp add: tweet_def throw_apply)

theorem tweet_not_connected_witness:
  "tweet quietDriver (constructor credentials) ''hello'' (Some ''42'') start
     = (Inl (Error ''Not connected to Twitter''), start)"
  by (rule tweet_not_connected) (simp add: constructor_def)

subsection \<open>C3: the poll interval\<close>

text \<open>
  C3, as the code has it.  The constructor stores 60000 when the given poll interval is
  absent or 0 and stores every other value as it is, a negative one included; so the
  stored interval is positive exactly when the given one is absent or not negative.
  \<^verbatim>\<open>setupMonitoring\<close> applies the same default again when it arms the timer, which on a
  connector straight from the constructor yields the stored value.
\<close>

theorem constructor_pollInterval:
  "pollInterval (config (constructor cfg))
     = Some (case pollInterval cfg of None \<Rightarrow> 60000 | Some n \<Rightarrow> if n = 0 then 60000 else n)
   \<and> ((\<exists>n. pollInterval (config (constructor cfg)) = Some n \<and> 0 < n)
        \<longleftrightarrow> (pollInterval cfg = None \<or> (\<exists>m. pollInterval cfg = Some m \<and> 0 \<le> m)))
   \<and> monitorInterval (setupMonitoring (constructor cfg)) = pollInterval (config (constructor cfg))"
  by (cases "pollInterval cfg") (auto simp: constructor_def setupMonitoring_def orDefault_def)

theorem constructor_pollInterval_witness:
  "pollInterval (config (constructor credentials)) = Some 60000
   \<and> monitorInterval (setupMonitoring (constructor credentials)) = Some 60000"
  using constructor_pollInterval [of credentials] by (simp add: credentials_def)

text \<open>The claim as stated fails for a negative poll interval.\<close>

theorem constructor_pollInterval_counterexample:
  "pollInterval (config (constructor negativePoll)) = Some (- 5) \<and> \<not> (0 < (- 5 :: int))"
  by (simp add: constructor_def negativePoll_def orDefault_def)

subsection \<open>What \<^verbatim>\<open>connect\<close> and \<^verbatim>\<open>disconnect\<close> do to the connector\<close>

lemma connectBody_failure:
  assumes "connectBody D c x = (Inl e, c1, x1)"
  shows "c1 = c \<or> (\<exists>b. c1 = c\<lparr>browser := Some b\<rparr>)
         \<or> (\<exists>b p. c1 = c\<lparr>browser := Some b, page := Some p\<rparr>)"
  using assms
  by (auto simp: connectBody_def Let_def split: if_splits prod.splits sum.splits)

lemma connectBody_success:
  assumes "connectBody D c x = (Inr u, c1, x1)"
  shows "connected c1 \<and> (\<exists>b. browser c1 = Some b) \<and> (\<exists>p. page c1 = Some p)
         \<and> config c1 = config c \<and> \<not> lacksCredentials (config c)"
  using assms
  by (auto simp: connectBody_def Let_def setupMonitoring_def
           split: if_splits prod.splits sum.splits)

lemma setIdentity_fields [simp]:
  "config (setIdentity a c) = config c" "browser (setIdentity a c) = browser c"
  "page (setIdentity a c) = page c" "connected (setIdentity a c) = connected c"
  "monitorInterval (setIdentity a c) = monitorInterval c"
  by (cases a; simp add: setIdentity_def)+

lemma connect_failure:
  assumes "connect D a c x = (Inl e, c', x')"
  shows "browser c' = None \<and> connected c' = connected c \<and> config c' = config c
         \<and> (page c' = None \<or> (page c' = page c \<and> browser c = None))"
proof -
  obtain r c1 x1 where body: "connectBody D (setIdentity a c) x = (r, c1, x1)"
    by (cases "connectBody D (setIdentity a c) x") auto
  with assms obtain e1 where r: "r = Inl e1"
    by (cases r) (auto simp: connect_def connectFailed_def split: option.splits)
  from connectBody_failure [OF body [unfolded r]]
  have shape: "c1 = setIdentity a c \<or> (\<exists>b. c1 = (setIdentity a c)\<lparr>browser := Some b\<rparr>)
     \<or> (\<exists>b p. c1 = (setIdentity a c)\<lparr>browser := Some b, page := Some p\<rparr>)" .
  from assms body r have "(Inl e, c', x') = connectFailed D e1 c1 x1"
    by (simp add: connect_def)
  with shape show ?thesis
    by (auto simp: connectFailed_def split: option.splits)
qed

lemma connect_success:
  assumes "connect D a c x = (Inr u, c', x')"
  shows "connected c' \<and> browser c' \<noteq> None \<and> page c' \<noteq> None \<and> config c' = config c
         \<and> \<not> lacksCredentials (config c)"
proof -
  obtain r c1 x1 where body: "connectBody D (setIdentity a c) x = (r, c1, x1)"
    by (cases "connectBody D (setIdentity a c) x") auto
  with assms have r: "r = Inr ()" and c': "c' = c1"
    by (cases r; auto simp: connect_def connectFailed_def split: option.splits)+
  from connectBody_success [OF body [unfolded r]] c' show ?thesis by auto
qed

lemma disconnect_fields:
  assumes "disconnect D c x = (r, c', x')"
  shows "r = Inr () \<and> config c' = config c \<and> \<not> connected c'
     \<and> (browser c' = None \<and> (page c' = None \<or> (page c' = page c \<and> browser c = None))
         \<or> c' = c)"
  using assms by (auto simp: disconnect_def split: if_splits option.splits)

text \<open>
  In every state a connector can be in, a page is held only together with a browser, and
  a browser is held only when the configuration has both credentials.
\<close>

lemma reachable_invariant:
  "reachable c \<Longrightarrow>
     (browser c = None \<longrightarrow> page c = None) \<and> (lacksCredentials (config c) \<longrightarrow> browser c = None)"
proof (induction rule: reachable.induct)
  case (fresh cfg)
  show ?case by (simp add: constructor_def)
next
  case (connected c D a x)
  obtain r c' x' where run: "connect D a c x = (r, c', x')"
    by (cases "connect D a c x") auto
  show ?case
  proof (cases r)
    case (Inl e)
    from connect_failure [OF run [unfolded Inl]] connected.IH show ?thesis
      by (auto simp: run)
  next
    case (Inr u)
    from connect_success [OF run [unfolded Inr]] show ?thesis
      by (auto simp: run)
  qed
next
  case (disconnected c D x)
  obtain r c' x' where run: "disconnect D c x = (r, c', x')"
    by (cases "disconnect D c x") auto
  from disconnect_fields [OF run] disconnected.IH show ?case
    by (auto simp: run)
qed

lemma online_run:
  "connect launchOnce (Agent 0) (constructor credentials) start = (Inr (), online, onlineExt)"
  "connected online" "browser online = Some 1" "page online = Some 2"
  "config online = config (constructor credentials)" "calls onlineExt \<noteq> []"
  unfolding online_def onlineExt_def
  by (simp_all add: run login_defs connect_defs constructor_def launchOnce_def quietDriver_def
        credentials_def start_def)

lemma noLaunch_run:
  "connect noLaunch (Agent 0) (constructor credentials) start =
     (Inl (BrowserError ''Failed to launch the browser process''),
      setIdentity (Agent 0) (constructor credentials),
      \<lparr>calls = [Launch (Some True)],
       logs = [Err ''Failed to connect to Twitter''
                 (BrowserError ''Failed to launch the browser process'')]\<rparr>)"
  by (simp add: run connect_defs constructor_def noLaunch_def quietDriver_def credentials_def
        start_def)

subsection \<open>C6: \<^verbatim>\<open>connect\<close> without credentials\<close>

text \<open>
  C6.  For every connector whose configuration lacks a username or a password (absent or
  empty), in whatever state \<^verbatim>\<open>connect\<close> and \<^verbatim>\<open>disconnect\<close> can have left it, \<^verbatim>\<open>connect\<close>
  throws \<^verbatim>\<open>Error('Twitter username and password are required')\<close> (the failure the
  specification calls ConfigurationError) and makes no call to the browser: the list of
  calls stays as it was, only the error is logged.
\<close>

theorem connect_without_credentials:
  assumes "reachable c" and "lacksCredentials (config c)"
  shows "connect D a c x =
           (Inl (Error ''Twitter username and password are required''), setIdentity a c,
            x\<lparr>logs := logs x @ [Err ''Failed to connect to Twitter''
                 (Error ''Twitter username and password are required'')]\<rparr>)
         \<and> calls (snd (snd (connect D a c x))) = calls x"
proof -
  from reachable_invariant [OF assms(1)] assms(2) have "browser c = None" by simp
  with assms(2) show ?thesis
    by (simp add: connect_def connectBody_def connectFailed_def logError_def)
qed

theorem connect_without_credentials_witness:
  "fst (connect quietDriver (Agent 0) (constructor noCredentials) start)
     = Inl (Error ''Twitter username and password are required'')
   \<and> calls (snd (snd (connect quietDriver (Agent 0) (constructor noCredentials) start))) = []"
proof -
  have "lacksCredentials (config (constructor noCredentials))"
    by (simp add: lacksCredentials_def constructor_def noCredentials_def truthy_def)
  from connect_without_credentials [OF reachable.fresh this, of quietDriver "Agent 0" start]
  show ?thesis by (simp add: start_def)
qed

subsection \<open>C4: the connector after a failed \<^verbatim>\<open>connect\<close>\<close>

text \<open>
  C4, as the code has it.  For every state a connector can be in with \<^verbatim>\<open>connected\<close>
  false, whenever \<^verbatim>\<open>connect\<close> throws, the connector is left with \<^verbatim>\<open>connected == false\<close>,
  \<^verbatim>\<open>browser == null\<close> and \<^verbatim>\<open>page == null\<close>; that state is again one from which
  \<^verbatim>\<open>connect\<close> can be tried with the same guarantee, and a \<^verbatim>\<open>disconnect\<close> that follows
  returns at once, changing nothing and calling nothing.
\<close>

theorem connect_failure_state:
  assumes "reachable c" and "\<not> connected c" and "connect D a c x = (Inl e, c', x')"
  shows "\<not> connected c' \<and> browser c' = None \<and> page c' = None
         \<and> reachable c' \<and> disconnect D' c' y = (Inr (), c', y)"
proof -
  from reachable_invariant [OF assms(1)] have "browser c = None \<longrightarrow> page c = None" by simp
  with connect_failure [OF assms(3)] assms(2)
  have "\<not> connected c' \<and> browser c' = None \<and> page c' = None" by auto
  moreover from reachable.connected [OF assms(1), of D a x] assms(3) have "reachable c'"
    by simp
  ultimately show ?thesis by (simp add: disconnect_def)
qed

text \<open>
  A login that stays on the login page: the browser launched is closed and the connector
  is back in the state of a new one.
\<close>

theorem connect_failure_state_witness:
  "fst (connect closeFails (Agent 0) (constructor credentials) start)
     = Inl (Error ''Twitter login failed: Login failed - still on login page'')
   \<and> \<not> connected (fst (snd (connect closeFails (Agent 0) (constructor credentials) start)))
   \<and> browser (fst (snd (connect closeFails (Agent 0) (constructor credentials) start))) = None
   \<and> page (fst (snd (connect closeFails (Agent 0) (constructor credentials) start))) = None
   \<and> disconnect quietDriver
        (fst (snd (connect closeFails (Agent 0) (constructor credentials) start))) start
       = (Inr (), fst (snd (connect closeFails (Agent 0) (constructor credentials) start)), start)"
proof -
  let ?run = "connect closeFails (Agent 0) (constructor credentials) start"
  have nc: "\<not> connected (constructor credentials)"
    by (simp add: constructor_def)
  have failed: "fst ?run = Inl (Error ''Twitter login failed: Login failed - still on login page'')"
    by (simp add: run login_defs connect_defs constructor_def closeFails_def quietDriver_def
          credentials_def start_def)
  then have "?run = (Inl (Error ''Twitter login failed: Login failed - still on login page''),
                     fst (snd ?run), snd (snd ?run))"
    by (simp add: prod_eq_iff)
  from connect_failure_state [OF reachable.fresh nc this, of quietDriver start] failed
  show ?thesis by simp
qed

text \<open>
  The claim as stated includes a connector that is connected already.  There a
  \<^verbatim>\<open>connect\<close> that throws closes the browser held and sets \<^verbatim>\<open>browser\<close> and \<^verbatim>\<open>page\<close> to
  null, but \<^verbatim>\<open>connected\<close> stays true: no statement of \<^verbatim>\<open>connect\<close> sets it to false.
\<close>

theorem connect_failure_state_counterexample:
  "reachable online \<and> connected online
   \<and> fst (connect launchOnce (AgentSwarm 1) online onlineExt)
       = Inl (BrowserError ''Failed to launch the browser process'')
   \<and> connected (fst (snd (connect launchOnce (AgentSwarm 1) online onlineExt)))"
proof -
  have "reachable online"
    unfolding online_def by (rule reachable.connected [OF reachable.fresh])
  moreover have "connectBody launchOnce (setIdentity (AgentSwarm 1) online) onlineExt
       = (Inl (BrowserError ''Failed to launch the browser process''),
          setIdentity (AgentSwarm 1) online,
          onlineExt\<lparr>calls := calls onlineExt @ [Launch (headless (config online))]\<rparr>)"
    by (simp add: connectBody_def online_run lacksCredentials_def truthy_def constructor_def
          credentials_def request_apply launchOnce_def quietDriver_def)
  ultimately show ?thesis
    by (simp add: connect_def connectFailed_def online_run setIdentity_def)
qed

subsection \<open>C1: cleanup when \<^verbatim>\<open>connect\<close> fails\<close>

lemma closeQuietly_fields:
  "calls (closeQuietly D b x) = calls x @ [Close b]"
  "logs (closeQuietly D b x) =
     logs x @ (case onUnit D (calls x) (Close b) of
                 Inl m \<Rightarrow> [Err ''Error closing browser'' (BrowserError m)]
               | Inr u \<Rightarrow> [])"
  by (simp_all add: closeQuietly_def request_apply logError_def split: sum.splits)

lemma connectBody_browser:
  assumes "connectBody D c x = (Inl e, c1, x1)"
  shows "(\<forall>b. \<not> lacksCredentials (config c)
              \<longrightarrow> onHandle D (calls x) (Launch (headless (config c))) = Inr b
              \<longrightarrow> browser c1 = Some b)
       \<and> (lacksCredentials (config c)
            \<or> (\<exists>m. onHandle D (calls x) (Launch (headless (config c))) = Inl m)
           \<longrightarrow> browser c1 = browser c)"
  using assms
  by (auto simp: connectBody_def Let_def request_apply split: if_splits prod.splits sum.splits)

text \<open>
  C1.  Let the \<^verbatim>\<open>try\<close> block of \<^verbatim>\<open>connect\<close> end with the error \<open>e\<close> (a rejected launch,
  page creation or page set-up, the error \<^verbatim>\<open>browserLogin\<close> throws, or missing
  credentials), leaving the connector as \<open>c1\<close> and the outside world as \<open>x1\<close>.  Then for
  every configuration and every browser:
  \<^item> the error \<^verbatim>\<open>connect\<close> throws is \<open>e\<close>, the error that triggered the cleanup, whatever
    \<^verbatim>\<open>close\<close> does;
  \<^item> the browser handle the connector holds at that moment is closed, once, as the last
    call before the error propagates;
  \<^item> a rejection of \<^verbatim>\<open>close\<close> is only logged, after the connect failure;
  \<^item> once the launch has resolved, and so for every error of the login procedure, the
    handle held is the launched browser; when the launch itself rejects (or the
    credentials are missing) no browser has been created by this call, and the handle
    held, if any, is the one the connector had before it.
\<close>

theorem connect_cleanup:
  assumes "connectBody D (setIdentity a c) x = (Inl e, c1, x1)"
  shows "fst (connect D a c x) = Inl e
       \<and> calls (snd (snd (connect D a c x)))
           = calls x1 @ (case browser c1 of None \<Rightarrow> [] | Some b \<Rightarrow> [Close b])
       \<and> logs (snd (snd (connect D a c x)))
           = logs x1 @ Err ''Failed to connect to Twitter'' e #
               (case browser c1 of
                  None \<Rightarrow> []
                | Some b \<Rightarrow>
                   (case onUnit D (calls x1) (Close b) of
                      Inl m \<Rightarrow> [Err ''Error closing browser'' (BrowserError m)]
                    | Inr u \<Rightarrow> []))
       \<and> (\<forall>b. \<not> lacksCredentials (config c)
              \<longrightarrow> onHandle D (calls x) (Launch (headless (config c))) = Inr b
              \<longrightarrow> browser c1 = Some b)
       \<and> (lacksCredentials (config c)
            \<or> (\<exists>m. onHandle D (calls x) (Launch (headless (config c))) = Inl m)
           \<longrightarrow> browser c1 = browser c)"
proof -
  from connectBody_browser [OF assms]
  have held: "(\<forall>b. \<not> lacksCredentials (config c)
              \<longrightarrow> onHandle D (calls x) (Launch (headless (config c))) = Inr b
              \<longrightarrow> browser c1 = Some b)"
    and kept: "(lacksCredentials (config c)
            \<or> (\<exists>m. onHandle D (calls x) (Launch (headless (config c))) = Inl m)
           \<longrightarrow> browser c1 = browser c)"
    by auto
  have "connect D a c x = connectFailed D e c1 x1"
    using assms by (simp add: connect_def)
  then have "fst (connect D a c x) = Inl e"
    and "calls (snd (snd (connect D a c x)))
           = calls x1 @ (case browser c1 of None \<Rightarrow> [] | Some b \<Rightarrow> [Close b])"
    and "logs (snd (snd (connect D a c x)))
           = logs x1 @ Err ''Failed to connect to Twitter'' e #
               (case browser c1 of
                  None \<Rightarrow> []
                | Some b \<Rightarrow>
                   (case onUnit D (calls x1) (Close b) of
                      Inl m \<Rightarrow> [Err ''Error closing browser'' (BrowserError m)]
                    | Inr u \<Rightarrow> []))"
    by (simp_all add: connectFailed_def closeQuietly_fields logError_def split: option.splits)
  with held kept show ?thesis by blast
qed

lemma closeFails_body:
  "connectBody closeFails (setIdentity (Agent 0) (constructor credentials)) start =
     (Inl (Error ''Twitter login failed: Login failed - still on login page''),
      (setIdentity (Agent 0) (constructor credentials))\<lparr>browser := Some 1, page := Some 2\<rparr>,
      snd (snd (connectBody closeFails (setIdentity (Agent 0) (constructor credentials)) start)))"
  by (simp add: run login_defs connect_defs constructor_def closeFails_def quietDriver_def
        credentials_def start_def)

text \<open>
  A login that stays on the login page, in a browser whose \<^verbatim>\<open>close\<close> rejects: the error
  thrown is the one \<^verbatim>\<open>browserLogin\<close> threw, the last call is the close, the last log line
  is its rejection.
\<close>

theorem connect_cleanup_witness:
  "fst (connect closeFails (Agent 0) (constructor credentials) start)
     = Inl (Error ''Twitter login failed: Login failed - still on login page'')
   \<and> last (calls (snd (snd (connect closeFails (Agent 0) (constructor credentials) start))))
       = Close 1
   \<and> last (logs (snd (snd (connect closeFails (Agent 0) (constructor credentials) start))))
       = Err ''Error closing browser'' (BrowserError ''Target closed'')"
  using connect_cleanup [OF closeFails_body]
  by (simp add: closeFails_def quietDriver_def)

subsection \<open>C10: the reply path always finds a composer\<close>

lemma request_raises: "request f c x = (Inl e, x') \<Longrightarrow> \<exists>m. e = BrowserError m"
  by (auto simp: request_apply split: sum.splits)

lemma debugShot_raises: "debugShot D cfg p path x = (Inl e, x') \<Longrightarrow> \<exists>m. e = BrowserError m"
  by (auto simp: debugShot_def ret_apply split: if_splits dest: request_raises)

lemma replyComposer_found: "fst (replyComposer D p content x) \<noteq> Inr False"
  by (auto simp: replyComposer_def run split: prod.splits sum.splits)

lemma replyComposer_raises: "replyComposer D p content x = (Inl e, x') \<Longrightarrow> \<exists>m. e = BrowserError m"
  by (auto simp: replyComposer_def run split: prod.splits sum.splits if_splits)

lemma submitReply_raises: "submitReply D p x = (Inl e, x') \<Longrightarrow> \<exists>m. e = BrowserError m"
  by (auto simp: submitReply_def run split: prod.splits sum.splits if_splits)

lemma openReply_raises:
  "openReply D cfg p tweetId x = (Inl e, x') \<Longrightarrow>
     (\<exists>m. e = BrowserError m) \<or> e = Error ''Could not find or click reply button''"
  by (auto simp: openReply_def run split: prod.splits sum.splits if_splits dest: debugShot_raises)

lemma afterReplyComposer_raises:
  "afterReplyComposer D cfg p True x = (Inl e, x') \<Longrightarrow> \<exists>m. e = BrowserError m"
  by (auto simp: afterReplyComposer_def seq_apply split: prod.splits sum.splits
           dest: debugShot_raises submitReply_raises)

lemma rethrowLogged_raises:
  "rethrowLogged msg body x = (Inl e, x') \<Longrightarrow> \<exists>x1. body x = (Inl e, x1)"
  by (auto simp: rethrowLogged_def run split: prod.splits sum.splits)

lemma postReplyBody_raises:
  assumes "seq (openReply D cfg p tweetId)
             (bnd (replyComposer D p content) (afterReplyComposer D cfg p)) x = (Inl e, x')"
  shows "(\<exists>m. e = BrowserError m) \<or> e = Error ''Could not find or click reply button''"
proof -
  obtain r1 x1 where opened: "openReply D cfg p tweetId x = (r1, x1)"
    by (cases "openReply D cfg p tweetId x") auto
  show ?thesis
  proof (cases r1)
    case (Inl e1)
    with assms opened have "e1 = e" by (simp add: seq_apply)
    with openReply_raises opened Inl show ?thesis by blast
  next
    case (Inr u)
    obtain r2 x2 where composed: "replyComposer D p content x1 = (r2, x2)"
      by (cases "replyComposer D p content x1") auto
    show ?thesis
    proof (cases r2)
      case (Inl e2)
      with assms opened Inr composed have "e2 = e" by (simp add: seq_apply bnd_apply)
      with replyComposer_raises composed Inl show ?thesis by blast
    next
      case found: (Inr textareaFound)
      from replyComposer_found [of D p content x1] composed found have "textareaFound"
        by simp
      with assms opened Inr composed found
      have "afterReplyComposer D cfg p True x2 = (Inl e, x')"
        by (simp add: seq_apply bnd_apply)
      with afterReplyComposer_raises show ?thesis by blast
    qed
  qed
qed

text \<open>
  C10.  In the reply path the search for the composer cannot come out as not found: when
  no text area selector yields an element that can be clicked and typed into, the content
  is typed with the keyboard and \<^verbatim>\<open>textareaFound\<close> is set without a condition, so the
  flag is never false when line 796 tests it (the keyboard call itself may still reject,
  which propagates as the browser's error).  Hence \<^verbatim>\<open>postReplyWithBrowser\<close> never throws
  \<^verbatim>\<open>Error('Could not find or use reply textarea')\<close>, for any browser, configuration,
  content and post id.
\<close>

theorem reply_composer_always_found:
  "fst (replyComposer D p content x) \<noteq> Inr False
   \<and> fst (postReplyWithBrowser D cfg pg content tweetId x)
        \<noteq> Inl (Error ''Could not find or use reply textarea'')"
proof -
  have "fst (postReplyWithBrowser D cfg pg content tweetId x)
           \<noteq> Inl (Error ''Could not find or use reply textarea'')"
  proof (cases pg)
    case None
    then show ?thesis by (simp add: postReplyWithBrowser_def throw_apply)
  next
    case (Some p)
    show ?thesis
    proof
      assume "fst (postReplyWithBrowser D cfg pg content tweetId x)
                = Inl (Error ''Could not find or use reply textarea'')"
      then obtain x' where
        "postReplyWithBrowser D cfg pg content tweetId x
           = (Inl (Error ''Could not find or use reply textarea''), x')"
        by (cases "postReplyWithBrowser D cfg pg content tweetId x") auto
      with Some rethrowLogged_raises obtain x1 where
        "seq (openReply D cfg p tweetId)
             (bnd (replyComposer D p content) (afterReplyComposer D cfg p)) x
           = (Inl (Error ''Could not find or use reply textarea''), x1)"
        unfolding postReplyWithBrowser_def by fastforce
      from postReplyBody_raises [OF this] show False by simp
    qed
  qed
  with replyComposer_found show ?thesis by blast
qed

theorem reply_composer_always_found_witness:
  "fst (replyComposer quietDriver 2 ''hi'' start) \<noteq> Inr False
   \<and> fst (postReplyWithBrowser quietDriver credentials (Some 2) ''hi'' ''42'' start)
        \<noteq> Inl (Error ''Could not find or use reply textarea'')"
  by (rule reply_composer_always_found)

subsection \<open>C2: the reply path against the new-post path\<close>

lemma emitsI: "(\<And>x. \<exists>cs. calls (snd (m x)) = calls x @ cs \<and> list_all A cs) \<Longrightarrow> emits A m"
  by (simp add: emits_def)

lemma emitsD: "emits A m \<Longrightarrow> \<exists>cs. calls (snd (m x)) = calls x @ cs \<and> list_all A cs"
  by (simp add: emits_def)

lemma emits_ret: "emits A (ret v)"
  by (simp add: emits_def ret_apply)

lemma emits_throw: "emits A (throw e)"
  by (simp add: emits_def throw_apply)

lemma emits_warn: "emits A (warn m)"
  by (simp add: emits_def warn_apply)

lemma emits_logErr: "emits A (logErr m e)"
  by (simp add: emits_def logErr_apply)

lemma emits_request: "A c \<Longrightarrow> emits A (request f c)"
  by (simp add: emits_def request_apply)

lemma emits_bnd:
  assumes "emits A m" and "\<And>v. emits A (f v)"
  shows "emits A (bnd m f)"
proof (rule emitsI)
  fix x
  obtain r x1 where m: "m x = (r, x1)" by (cases "m x") auto
  from emitsD [OF assms(1), of x] m obtain cs where
    cs: "calls x1 = calls x @ cs" "list_all A cs" by auto
  show "\<exists>cs. calls (snd (bnd m f x)) = calls x @ cs \<and> list_all A cs"
  proof (cases r)
    case (Inl e)
    with m cs show ?thesis by (auto simp: bnd_apply)
  next
    case (Inr v)
    from emitsD [OF assms(2), of v x1] obtain ds where
      "calls (snd (f v x1)) = calls x1 @ ds" "list_all A ds" by auto
    with m cs Inr have "calls (snd (bnd m f x)) = calls x @ (cs @ ds)" "list_all A (cs @ ds)"
      by (auto simp: bnd_apply)
    then show ?thesis by blast
  qed
qed

lemma emits_seq: "emits A m \<Longrightarrow> emits A n \<Longrightarrow> emits A (seq m n)"
  by (simp add: seq_def emits_bnd)

lemma emits_catch:
  assumes "emits A m" and "\<And>e. emits A (h e)"
  shows "emits A (catch m h)"
proof (rule emitsI)
  fix x
  obtain r x1 where m: "m x = (r, x1)" by (cases "m x") auto
  from emitsD [OF assms(1), of x] m obtain cs where
    cs: "calls x1 = calls x @ cs" "list_all A cs" by auto
  show "\<exists>cs. calls (snd (catch m h x)) = calls x @ cs \<and> list_all A cs"
  proof (cases r)
    case (Inr v)
    with m cs show ?thesis by (auto simp: catch_apply)
  next
    case (Inl e)
    from emitsD [OF assms(2), of e x1] obtain ds where
      "calls (snd (h e x1)) = calls x1 @ ds" "list_all A ds" by auto
    with m cs Inl have "calls (snd (catch m h x)) = calls x @ (cs @ ds)" "list_all A (cs @ ds)"
      by (auto simp: catch_apply)
    then show ?thesis by blast
  qed
qed

lemma emits_swallow: "emits A m \<Longrightarrow> emits A (lift (swallow m))"
  unfolding emits_def
  by (auto simp: lift_apply swallow_apply split: prod.splits sum.splits) (metis snd_conv)+

lemma firstThat_calls:
  assumes "\<And>a. emits A (step a)"
  shows "\<exists>cs. calls (snd (firstThat step as x)) = calls x @ cs \<and> list_all A cs"
proof (induction as arbitrary: x)
  case Nil
  show ?case by simp
next
  case (Cons a as)
  obtain r x1 where s: "step a x = (r, x1)" by (cases "step a x") auto
  from emitsD [OF assms, of a x] s obtain cs where
    cs: "calls x1 = calls x @ cs" "list_all A cs" by auto
  from Cons.IH [of x1] obtain ds where
    ds: "calls (snd (firstThat step as x1)) = calls x1 @ ds" "list_all A ds" by auto
  have "calls (snd (firstThat step (a # as) x)) = calls x @ cs
        \<or> calls (snd (firstThat step (a # as) x)) = calls x @ (cs @ ds)"
    using s cs ds by (auto split: sum.splits bool.splits)
  with cs ds have "\<exists>es. calls (snd (firstThat step (a # as) x)) = calls x @ es \<and> list_all A es"
    by (metis list_all_append)
  then show ?case .
qed

lemma emits_firstThat: "(\<And>a. emits A (step a)) \<Longrightarrow> emits A (lift (firstThat step as))"
  using firstThat_calls [of A step as]
  by (auto simp: emits_def lift_apply split: prod.splits) (metis snd_conv)


lemma emits_debugShot: "(\<And>path. A (Screenshot p path)) \<Longrightarrow> emits A (debugShot D cfg p path)"
  by (simp add: debugShot_def emits_request emits_ret)

lemma emits_tryClick:
  "(\<And>sel. A (Query p sel)) \<Longrightarrow> (\<And>el. A (Click el)) \<Longrightarrow> emits A (tryClick D p sel)"
  unfolding tryClick_def
  by (intro emits_bnd emits_request) (auto split: option.splits intro!: emits_seq emits_request emits_ret)

lemma emits_tryType:
  "(\<And>sel. A (Query p sel)) \<Longrightarrow> (\<And>el. A (Click el)) \<Longrightarrow> (\<And>el. A (ElemType el content))
     \<Longrightarrow> emits A (tryType D p content sel)"
  unfolding tryType_def
  by (intro emits_bnd emits_request) (auto split: option.splits intro!: emits_seq emits_request emits_ret)

lemma emits_tryEnabled:
  "(\<And>sel. A (Query p sel)) \<Longrightarrow> (\<And>el. A (Click el)) \<Longrightarrow> (\<And>el. A (IsDisabled p el))
     \<Longrightarrow> emits A (tryEnabled D p sel)"
  unfolding tryEnabled_def
  by (intro emits_bnd emits_request)
     (auto split: option.splits intro!: emits_bnd emits_seq emits_request emits_ret)

lemma emits_tryButton_unchecked:
  "(\<And>el. A (TextContent p el)) \<Longrightarrow> (\<And>el. A (Click el)) \<Longrightarrow> emits A (tryButton D p pred False b)"
  unfolding tryButton_def
  by (intro emits_bnd emits_request) (auto intro!: emits_seq emits_request emits_ret)

lemma emits_textScan_unchecked:
  assumes "A (QueryAll p buttonLike)" and "\<And>el. A (TextContent p el)" and "\<And>el. A (Click el)"
  shows "emits A (lift (textScan D p pred False))"
  unfolding textScan_def scanByText_def
  by (intro emits_swallow emits_bnd emits_request emits_firstThat emits_tryButton_unchecked assms)

lemma not_newPostOnly [simp]:
  "\<not> newPostOnly (Query p sel)" "\<not> newPostOnly (Click el)" "\<not> newPostOnly (ElemType el t)"
  "\<not> newPostOnly (IsDisabled p el)" "\<not> newPostOnly (TextContent p el)"
  "\<not> newPostOnly (Screenshot p path)" "\<not> newPostOnly (KeyboardType p t)"
  "\<not> newPostOnly (KeyboardPress p k)" "\<not> newPostOnly (QueryAll p buttonLike)"
  by (simp_all add: newPostOnly_def buttonLike_def)

lemma status_not_compose:
  "\<not> newPostOnly (Goto p (''https://twitter.com/i/status/'' @ tweetId))"
  by (simp add: newPostOnly_def)

lemma emits_goto_status:
  "emits (\<lambda>c. \<not> newPostOnly c)
     (request f (Goto p (''https://twitter.com/i/status/'' @ tweetId)))"
  by (rule emits_request) (rule status_not_compose)

lemma emits_openReply: "emits (\<lambda>c. \<not> newPostOnly c) (openReply D cfg p tweetId)"
  unfolding openReply_def
  by (intro emits_seq emits_bnd emits_debugShot emits_firstThat emits_tryClick
        emits_goto_status)
     (simp_all add: emits_throw emits_ret)

lemma emits_replyComposer: "emits (\<lambda>c. \<not> newPostOnly c) (replyComposer D p content)"
  unfolding replyComposer_def
  by (intro emits_bnd emits_firstThat emits_tryType)
     (auto intro!: emits_seq emits_request emits_ret)

lemma emits_submitReply: "emits (\<lambda>c. \<not> newPostOnly c) (submitReply D p)"
  unfolding submitReply_def
  by (intro emits_bnd emits_firstThat emits_tryEnabled)
     (auto intro!: emits_seq emits_request emits_ret emits_textScan_unchecked)

lemma emits_afterReplyComposer:
  "emits (\<lambda>c. \<not> newPostOnly c) (afterReplyComposer D cfg p found)"
  unfolding afterReplyComposer_def
  by (auto intro!: emits_seq emits_debugShot emits_submitReply emits_throw)

lemma emits_postReply:
  "emits (\<lambda>c. \<not> newPostOnly c) (postReplyWithBrowser D cfg pg content tweetId)"
  unfolding postReplyWithBrowser_def rethrowLogged_def
  by (cases pg)
     (auto intro!: emits_throw emits_catch emits_seq emits_bnd emits_logErr emits_openReply
        emits_replyComposer emits_afterReplyComposer)

lemma orElse_apply:
  "orElse search lastResort x =
     (case search x of
        (True, x') \<Rightarrow> (Inr True, x')
      | (False, x') \<Rightarrow>
          (case lastResort x' of (Inl e, x2) \<Rightarrow> (Inl e, x2) | (Inr u, x2) \<Rightarrow> (Inr True, x2)))"
  by (auto simp: orElse_def run split: prod.splits sum.splits)

lemma replyComposer_orElse:
  "replyComposer D p content =
     orElse (firstThat (tryType D p content) replyTextareaSelectors)
            (request (onUnit D) (KeyboardType p content))"
  by (rule ext) (auto simp: replyComposer_def orElse_apply run split: prod.splits sum.splits)

lemma isReplyOrTweet_eq:
  "isReplyOrTweet = (\<lambda>t. includes_str ''Reply'' t \<or> includes_str ''Tweet'' t)"
  by (rule ext) (simp add: isReplyOrTweet_def)

lemma submitReply_orElse:
  "submitReply D p =
     orElse (fallbacks [firstThat (tryEnabled D p) replyTweetButtonSelectors,
                        textScan D p isReplyOrTweet False])
            (request (onUnit D) (KeyboardPress p ''Enter''))"
  by (rule ext) (auto simp: submitReply_def orElse_apply run split: prod.splits sum.splits)

text \<open>A stage that never ends with "not found": what follows does not depend on its result.\<close>

lemma bnd_always_true:
  assumes "\<And>x. fst (m x) \<noteq> Inr False"
  shows "bnd m f = seq m (f True)"
proof (rule ext)
  fix x
  obtain r x' where mx: "m x = (r, x')" by (cases "m x") auto
  with assms [of x] have "r \<noteq> Inr False" by simp
  with mx show "bnd m f x = seq m (f True) x"
    by (cases r) (auto simp: run)
qed

lemma replyBody_unfolded:
  "seq (openReply D cfg p tweetId)
       (bnd (replyComposer D p content) (afterReplyComposer D cfg p))
   = seq (request (onUnit D) (Goto p (''https://twitter.com/i/status/'' @ tweetId)))
       (seq (debugShot D cfg p ''twitter-reply-page.png'')
       (bnd (lift (firstThat (tryClick D p) replyButtonSelectors))
         (\<lambda>triggerClicked.
            if \<not> triggerClicked then throw (Error ''Could not find or click reply button'')
            else
              seq (replyComposer D p content)
             (seq (debugShot D cfg p ''twitter-reply-composed.png'')
             (seq (submitReply D p)
                  (debugShot D cfg p ''twitter-after-reply.png''))))))"
proof -
  have after: "bnd (replyComposer D p content) (afterReplyComposer D cfg p)
                 = seq (replyComposer D p content) (afterReplyComposer D cfg p True)"
    by (rule bnd_always_true) (rule replyComposer_found)
  show ?thesis
    unfolding after
    by (rule ext)
       (auto simp: openReply_def afterReplyComposer_def seq_apply bnd_apply ret_apply throw_apply
          split: prod.splits sum.splits)
qed

lemma postReply_amended:
  "postReplyWithBrowser D cfg pg content tweetId = replyPathAmended False D cfg pg content tweetId"
proof (cases pg)
  case None
  then show ?thesis by (simp add: postReplyWithBrowser_def replyPathAmended_def)
next
  case (Some p)
  show ?thesis
    unfolding Some postReplyWithBrowser_def replyPathAmended_def option.case replyBody_unfolded
    unfolding replyComposer_orElse submitReply_orElse isReplyOrTweet_eq
      replyButtonSelectors_def replyTextareaSelectors_def replyTweetButtonSelectors_def
    by (rule refl)
qed

text \<open>
  C2, as the code has it.  The reply path is, for every browser, configuration, page,
  content and post id, the procedure \<open>replyPathAmended\<close>, with its own stages in this
  order:
  \<^item> navigate to the post's status page;
  \<^item> click a reply trigger, the first found in an ordered list of three selectors; when
    none is found the path ends with "Could not find or click reply button";
  \<^item> composer: an ordered list of four selectors (click and type into the first found),
    then typing the content with the keyboard, after which the composer always counts as
    found;
  \<^item> submit: an ordered list of four selectors with the disabled-state check, then a scan
    of button-like elements for a text containing "Reply" or "Tweet", then the Enter
    key;
  \<^item> every error is logged and thrown again.

  Nothing is stated about whether the scan by text skips disabled buttons.  And the path
  never makes a call of the strategies that only the new-post path has: no script
  evaluated in the page, no placeholder scan, no navigation to the compose page.
\<close>

theorem reply_path_strategies:
  "(\<exists>scanChecksDisabled. \<forall>D cfg pg content tweetId.
       postReplyWithBrowser D cfg pg content tweetId
         = replyPathAmended scanChecksDisabled D cfg pg content tweetId)
   \<and> emits (\<lambda>c. \<not> newPostOnly c) (postReplyWithBrowser D cfg pg content tweetId)"
  using postReply_amended emits_postReply by blast

text \<open>
  The claim as stated fails.  In the browser \<open>disabledButton\<close> the reply path of the
  source succeeds where the specified one (the procedures of the new-post path) ends
  with the composer not found; and the submit stage of the reply path clicks the
  disabled button 7, which the submit stage of the new-post path never clicks.
\<close>

lemma disabledButton_reply:
  "fst (postReplyWithBrowser disabledButton credentials (Some 2) ''hi'' ''42'' start) = Inr ()"
  by (simp add: run post_defs disabledButton_def quietDriver_def credentials_def start_def)

lemma disabledButton_specified:
  "fst (postReplyAsSpecified disabledButton credentials (Some 2) ''hi'' ''42'' start)
     = Inl (Error ''Could not find or use the tweet composer'')"
  by (simp add: postReplyAsSpecified_def run post_defs disabledButton_def quietDriver_def credentials_def start_def)

lemma disabledButton_submitReply:
  "Click 7 \<in> set (calls (snd (submitReply disabledButton 2 start)))"
  by (simp add: run post_defs disabledButton_def quietDriver_def start_def)

lemma disabledButton_submitTweet:
  "Click 7 \<notin> set (calls (snd (submitTweet disabledButton 2 start)))"
  by (simp add: run post_defs disabledButton_def quietDriver_def start_def)

text \<open>
  In the browser \<open>disabledButton\<close> the path \<open>replyPathAmended\<close> succeeds, as the source does, and
  the source makes no call of the new-post-only strategies.
\<close>

theorem reply_path_strategies_witness:
  "(\<exists>scanChecksDisabled.
      fst (replyPathAmended scanChecksDisabled disabledButton credentials (Some 2) ''hi'' ''42''
             start) = Inr ())
   \<and> list_all (\<lambda>c. \<not> newPostOnly c)
       (calls (snd (postReplyWithBrowser disabledButton credentials (Some 2) ''hi'' ''42'' start)))"
proof -
  from reply_path_strategies [of disabledButton credentials "Some 2" "''hi''" "''42''"]
  obtain chk where
    eq: "postReplyWithBrowser disabledButton credentials (Some 2) ''hi'' ''42''
           = replyPathAmended chk disabledButton credentials (Some 2) ''hi'' ''42''"
    and a: "emits (\<lambda>c. \<not> newPostOnly c)
              (postReplyWithBrowser disabledButton credentials (Some 2) ''hi'' ''42'')"
    by blast
  from eq disabledButton_reply
  have "fst (replyPathAmended chk disabledButton credentials (Some 2) ''hi'' ''42'' start) = Inr ()"
    by simp
  moreover from emitsD [OF a, of start]
  have "list_all (\<lambda>c. \<not> newPostOnly c)
          (calls (snd (postReplyWithBrowser disabledButton credentials (Some 2) ''hi'' ''42'' start)))"
    by (auto simp: start_def)
  ultimately show ?thesis by blast
qed

theorem reply_path_strategies_counterexample:
  "fst (postReplyWithBrowser disabledButton credentials (Some 2) ''hi'' ''42'' start) = Inr ()
   \<and> fst (postReplyAsSpecified disabledButton credentials (Some 2) ''hi'' ''42'' start)
       = Inl (Error ''Could not find or use the tweet composer'')
   \<and> Click 7 \<in> set (calls (snd (submitReply disabledButton 2 start)))
   \<and> Click 7 \<notin> set (calls (snd (submitTweet disabledButton 2 start)))"
  by (simp only: disabledButton_reply disabledButton_specified disabledButton_submitReply
        disabledButton_submitTweet simp_thms)

subsection \<open>C8: what \<^verbatim>\<open>tweet\<close> returns\<close>

declare decimal.simps [simp del]

lemma digitChar_isDigit: "d < 10 \<Longrightarrow> isDigit (digitChar d)"
proof -
  assume "d < 10"
  then have "d < length ''0123456789''" by simp
  then have "''0123456789'' ! d \<in> set ''0123456789''" by (rule nth_mem)
  then show ?thesis by (simp only: isDigit_def digitChar_def)
qed

lemma decimal_digits: "decimal n \<noteq> [] \<and> list_all isDigit (decimal n)"
proof (induction n rule: decimal.induct)
  case (1 n)
  show ?case
  proof (cases "n < 10")
    case True
    then show ?thesis by (subst (1 2) decimal.simps) (simp add: digitChar_isDigit)
  next
    case False
    have "n mod 10 < 10" by simp
    with False 1 show ?thesis
      by (subst (1 2) decimal.simps) (simp add: digitChar_isDigit)
  qed
qed

lemma tweetFailed_throws: "tweetFailed D c e x \<noteq> (Inr r, x')"
  by (auto simp: tweetFailed_def run debugShot_def split: option.splits prod.splits sum.splits)

lemma seq_ret_result: "seq m (ret v) x = (Inr r, x') \<Longrightarrow> r = v"
  by (auto simp: seq_apply ret_apply split: prod.splits sum.splits)

lemma seq_seq_ret_result: "seq m (seq n (ret v)) x = (Inr r, x') \<Longrightarrow> r = v"
  by (auto simp: seq_apply ret_apply split: prod.splits sum.splits)

text \<open>
  C8, as the code has it.  Whenever \<^verbatim>\<open>tweet\<close> returns, for every browser, connector and
  content: with a parent id that is a string other than the empty one the result is
  exactly \<^verbatim>\<open>reply_to_<parentId>_posted\<close>; with no parent id, or with the empty string
  (\<^verbatim>\<open>if (replyToId)\<close> is false for it), the new-post path runs and the result is
  \<^verbatim>\<open>tweet_posted_\<close> followed by the decimal digits of the clock read when the \<^verbatim>\<open>try\<close>
  block is entered (the clock reading is a natural number of milliseconds).
\<close>

theorem tweet_result:
  assumes "tweet D c content replyToId x = (Inr r, x')"
  shows "r = (case replyToId of
                None \<Rightarrow> ''tweet_posted_'' @ decimal (clock D (calls x))
              | Some parentId \<Rightarrow>
                  if parentId \<noteq> [] then ''reply_to_'' @ parentId @ ''_posted''
                  else ''tweet_posted_'' @ decimal (clock D (calls x)))
         \<and> decimal (clock D (calls x)) \<noteq> []
         \<and> list_all isDigit (decimal (clock D (calls x)))"
proof -
  let ?tweetId = "''tweet_posted_'' @ decimal (clock D (calls x))"
  from assms
  have "catch (tweetBody D c content replyToId ?tweetId) (tweetFailed D c) x = (Inr r, x')"
    by (auto simp: tweet_def throw_apply split: if_splits)
  then have body: "tweetBody D c content replyToId ?tweetId x = (Inr r, x')"
    by (auto simp: catch_apply tweetFailed_throws split: prod.splits sum.splits)
  have "r = (case replyToId of
                None \<Rightarrow> ?tweetId
              | Some parentId \<Rightarrow>
                  if parentId \<noteq> [] then ''reply_to_'' @ parentId @ ''_posted'' else ?tweetId)"
    using body
    by (auto simp: tweetBody_def split: option.splits if_splits
             dest: seq_ret_result seq_seq_ret_result)
  with decimal_digits show ?thesis by blast
qed

lemma decimal_clock: "decimal 1700000000000 = ''1700000000000''"
  by (simp add: decimal.simps digitChar_def)

lemma tweet_empty_parent:
  "fst (tweet everythingFound online ''hi'' (Some []) onlineExt)
     = Inr ''tweet_posted_1700000000000''"
  by (simp add: tweet_def tweetBody_def successShot_def online_run run post_defs constructor_def
        credentials_def everythingFound_def quietDriver_def decimal_clock)

lemma tweet_reply:
  "fst (tweet everythingFound online ''hi'' (Some ''42'') onlineExt) = Inr ''reply_to_42_posted''"
  by (simp add: tweet_def tweetBody_def successShot_def online_run run post_defs constructor_def
        credentials_def everythingFound_def quietDriver_def decimal_clock)

theorem tweet_result_witness:
  "fst (tweet everythingFound online ''hi'' (Some ''42'') onlineExt) = Inr ''reply_to_42_posted''
   \<and> list_all isDigit (decimal (clock everythingFound (calls onlineExt)))"
proof -
  have "tweet everythingFound online ''hi'' (Some ''42'') onlineExt
          = (Inr ''reply_to_42_posted'',
             snd (tweet everythingFound online ''hi'' (Some ''42'') onlineExt))"
    using tweet_reply by (simp add: prod_eq_iff)
  from tweet_result [OF this] tweet_reply show ?thesis by simp
qed

text \<open>
  The claim as stated covers every parent id.  With the empty string as parent id the
  call posts a new tweet and returns its identifier, not \<^verbatim>\<open>reply_to__posted\<close>.
\<close>

theorem tweet_result_counterexample:
  "fst (tweet everythingFound online ''hi'' (Some []) onlineExt)
     = Inr ''tweet_posted_1700000000000''
   \<and> ''tweet_posted_1700000000000'' \<noteq> ''reply_to_'' @ [] @ ''_posted''"
  using tweet_empty_parent by simp

subsection \<open>C5 and C7: an error replaced by the error of a debug screenshot\<close>

lemma onlineDebug_run:
  "connect launchOnce (Agent 0) (constructor debugging) start = (Inr (), onlineDebug, onlineDebugExt)"
  "connected onlineDebug" "browser onlineDebug = Some 1" "page onlineDebug = Some 2"
  "config onlineDebug = config (constructor debugging)"
  unfolding onlineDebug_def onlineDebugExt_def
  by (simp_all add: run login_defs connect_defs constructor_def launchOnce_def quietDriver_def
        credentials_def debugging_def start_def)

text \<open>
  C5 at a failing input.  No success indicator is found and the URL still contains
  "login".  Without \<^verbatim>\<open>debug\<close>, \<^verbatim>\<open>connect\<close> throws the error that says so.  With
  \<^verbatim>\<open>debug: true\<close>, the \<^verbatim>\<open>catch\<close> block of \<^verbatim>\<open>browserLogin\<close> awaits a screenshot before it
  throws; in a browser where that screenshot rejects, the rejection is what \<^verbatim>\<open>connect\<close>
  throws, and the message about the login page is lost.
\<close>

theorem login_error_masked:
  "fst (connect stuckOnLogin (Agent 0) (constructor debugging) start)
     = Inl (BrowserError ''EACCES: permission denied'')
   \<and> fst (connect stuckOnLogin (Agent 0) (constructor credentials) start)
     = Inl (Error ''Twitter login failed: Login failed - still on login page'')"
  by (simp add: run login_defs connect_defs constructor_def stuckOnLogin_def quietDriver_def
        credentials_def debugging_def start_def)

text \<open>
  C7 at a failing input.  The connector is connected and every strategy to find the
  composer fails.  Without \<^verbatim>\<open>debug\<close>, \<^verbatim>\<open>tweet\<close> throws the composer error.  With
  \<^verbatim>\<open>debug: true\<close>, a screenshot is awaited just before the \<^verbatim>\<open>throw\<close> of line 559; in a
  browser where it rejects, the rejection is what \<^verbatim>\<open>tweet\<close> throws.
\<close>

theorem composer_error_masked:
  "fst (tweet composerShotFails onlineDebug ''hi'' None onlineDebugExt)
     = Inl (BrowserError ''EACCES: permission denied'')
   \<and> fst (tweet composerShotFails online ''hi'' None onlineExt)
     = Inl (Error ''Could not find or use the tweet composer'')"
  by (simp add: tweet_def tweetBody_def tweetFailed_def successShot_def online_run onlineDebug_run
        run post_defs constructor_def credentials_def debugging_def composerShotFails_def quietDriver_def)

theorem login_error_masked_witness:
  "fst (connect stuckOnLogin (Agent 0) (constructor debugging) start)
     \<noteq> Inl (Error ''Twitter login failed: Login failed - still on login page'')"
  using login_error_masked by simp

theorem composer_error_masked_witness:
  "fst (tweet composerShotFails onlineDebug ''hi'' None onlineDebugExt)
     \<noteq> Inl (Error ''Could not find or use the tweet composer'')"
  using composer_error_masked by simp

subsection \<open>C5 and C7 when no debug screenshot rejects\<close>

lemma debugShot_cases:
  "debugShot D cfg p path x = (r, x') \<Longrightarrow>
     r = Inr () \<or> debugOn cfg \<and> (\<exists>m. r = Inl (BrowserError m))"
  by (auto simp: debugShot_def ret_apply request_apply split: if_splits sum.splits)

lemma debugShot_off: "\<not> debugOn cfg \<Longrightarrow> debugShot D cfg p path x = (Inr (), x)"
  by (simp add: debugShot_def ret_apply)

lemma shot_then_throw:
  "\<exists>e' x'. seq (debugShot D cfg p path) (throw e) x = (Inl e', x')
        \<and> (e' = e \<or> debugOn cfg \<and> (\<exists>m. e' = BrowserError m))"
proof -
  obtain r x' where shot: "debugShot D cfg p path x = (r, x')"
    by (cases "debugShot D cfg p path x") auto
  from debugShot_cases [OF shot] shot show ?thesis
    by (auto simp: seq_apply throw_apply)
qed

lemma hasElement_apply:
  "hasElement D p sel x =
     (case onElement D (calls x) (Query p sel) of
        Inl m \<Rightarrow> Inl (BrowserError m)
      | Inr el \<Rightarrow> Inr (el \<noteq> None),
      x\<lparr>calls := calls x @ [Query p sel]\<rparr>)"
  by (simp add: hasElement_def run split: sum.splits)

lemma firstThat_hasElement_calls:
  "\<exists>n. calls (snd (firstThat (hasElement D p) sels x)) = calls x @ map (Query p) (take n sels)"
proof (induction sels arbitrary: x)
  case Nil
  show ?case by simp
next
  case (Cons sel sels)
  let ?x1 = "x\<lparr>calls := calls x @ [Query p sel]\<rparr>"
  from Cons.IH [of ?x1] obtain n where
    n: "calls (snd (firstThat (hasElement D p) sels ?x1)) = calls ?x1 @ map (Query p) (take n sels)"
    by blast
  show ?case
  proof (cases "onElement D (calls x) (Query p sel) = Inr None
                \<or> (\<exists>m. onElement D (calls x) (Query p sel) = Inl m)")
    case True
    then have "firstThat (hasElement D p) (sel # sels) x = firstThat (hasElement D p) sels ?x1"
      by (auto simp: hasElement_apply)
    with n have "calls (snd (firstThat (hasElement D p) (sel # sels) x))
                   = calls x @ map (Query p) (take (Suc n) (sel # sels))"
      by simp
    then show ?thesis by blast
  next
    case False
    then obtain el where "onElement D (calls x) (Query p sel) = Inr (Some el)"
      by (cases "onElement D (calls x) (Query p sel)") auto
    then have "calls (snd (firstThat (hasElement D p) (sel # sels) x))
                 = calls x @ map (Query p) (take 1 (sel # sels))"
      by (simp add: hasElement_apply)
    then show ?thesis by blast
  qed
qed

text \<open>
  The verification step of the login, for every browser.  Let the login have reached the
  verification and let no success indicator be found.  The indicators were queried in
  the order of the list, up to some position.  If the current URL contains "login" or
  "signin", \<^verbatim>\<open>browserLogin\<close> throws; what it throws is
  \<^verbatim>\<open>Error('Twitter login failed: Login failed - still on login page')\<close>, unless
  \<^verbatim>\<open>debug\<close> is on and the screenshot of its \<^verbatim>\<open>catch\<close> block rejects.  If the URL contains
  neither, a warning is logged and the login goes on with the navigation to the home page.
\<close>

theorem login_verification:
  assumes "beforeVerify D cfg p u pw em x = (Inr (), x1)"
      and "findIndicator D p successIndicators x1 = (False, x2)"
  shows "(\<exists>n. calls x2 = calls x1 @ map (Query p) (take n successIndicators))
    \<and> (includes_str ''login'' (onUrl D (calls x2) (Url p))
         \<or> includes_str ''signin'' (onUrl D (calls x2) (Url p))
        \<longrightarrow> (\<exists>e. fst (browserLogin D cfg (Some p) u pw em x) = Inl e
              \<and> (e = Error ''Twitter login failed: Login failed - still on login page''
                  \<or> debugOn cfg \<and> (\<exists>m. e = BrowserError m))))
    \<and> (\<not> (includes_str ''login'' (onUrl D (calls x2) (Url p))
            \<or> includes_str ''signin'' (onUrl D (calls x2) (Url p)))
        \<longrightarrow> loginSteps D cfg p u pw em x
              = navigateHome D p
                  (x2\<lparr>logs := logs x2 @
                         [Warn ''Could not verify successful login by finding timeline elements''],
                      calls := calls x2 @ [Url p]\<rparr>))"
proof (intro conjI impI)
  from firstThat_hasElement_calls [of D p successIndicators x1] assms(2)
  show "\<exists>n. calls x2 = calls x1 @ map (Query p) (take n successIndicators)"
    by (simp add: findIndicator_def)
next
  let ?x3 = "x2\<lparr>logs := logs x2 @
                         [Warn ''Could not verify successful login by finding timeline elements''],
                      calls := calls x2 @ [Url p]\<rparr>"
  assume still: "includes_str ''login'' (onUrl D (calls x2) (Url p))
         \<or> includes_str ''signin'' (onUrl D (calls x2) (Url p))"
  with assms have steps: "loginSteps D cfg p u pw em x
      = (Inl (Error ''Login failed - still on login page''), ?x3)"
    by (simp add: loginSteps_def verifySuccess_def run)
  let ?x4 = "?x3\<lparr>logs := logs ?x3 @ [Err ''Error during Twitter login''
                 (Error ''Login failed - still on login page'')]\<rparr>"
  have wrapped: "browserLogin D cfg (Some p) u pw em x
       = seq (debugShot D cfg p ''twitter-login-error.png'')
             (throw (Error ''Twitter login failed: Login failed - still on login page'')) ?x4"
    using steps by (simp add: browserLogin_def catch_apply loginFailed_def seq_apply logErr_apply)
  from shot_then_throw [of D cfg p "''twitter-login-error.png''"
         "Error ''Twitter login failed: Login failed - still on login page''" ?x4]
  obtain e x5 where
    "seq (debugShot D cfg p ''twitter-login-error.png'')
         (throw (Error ''Twitter login failed: Login failed - still on login page'') :: unit io) ?x4
       = (Inl e, x5)"
    and e: "e = Error ''Twitter login failed: Login failed - still on login page''
            \<or> debugOn cfg \<and> (\<exists>m. e = BrowserError m)"
    by blast
  with wrapped have "fst (browserLogin D cfg (Some p) u pw em x) = Inl e"
    by (simp only: fst_conv)
  with e show "\<exists>e. fst (browserLogin D cfg (Some p) u pw em x) = Inl e
              \<and> (e = Error ''Twitter login failed: Login failed - still on login page''
                  \<or> debugOn cfg \<and> (\<exists>m. e = BrowserError m))"
    by blast
next
  assume "\<not> (includes_str ''login'' (onUrl D (calls x2) (Url p))
            \<or> includes_str ''signin'' (onUrl D (calls x2) (Url p)))"
  with assms show "loginSteps D cfg p u pw em x
              = navigateHome D p
                  (x2\<lparr>logs := logs x2 @
                         [Warn ''Could not verify successful login by finding timeline elements''],
                      calls := calls x2 @ [Url p]\<rparr>)"
    by (simp add: loginSteps_def verifySuccess_def run)
qed

text \<open>
  The new-post path, for every browser.  Let the connector be connected, the parent id be
  absent or empty, the home page have been opened, and the three strategies to locate the
  composer have ended with \<^verbatim>\<open>composerFound\<close> false.  Then \<^verbatim>\<open>tweet\<close> throws; what it
  throws is \<^verbatim>\<open>Error('Could not find or use the tweet composer')\<close>, unless \<^verbatim>\<open>debug\<close> is
  on and one of the two screenshots on the way out rejects.
\<close>

theorem tweet_composer_not_found:
  assumes "connected c" and "page c = Some p" and "browser c = Some b"
      and "replyToId = None \<or> replyToId = Some []"
      and "openHome D (config c) p x = (Inr u, x1)"
      and "locateComposer D (config c) p content x1 = (Inr False, x2)"
  shows "\<exists>e. fst (tweet D c content replyToId x) = Inl e
           \<and> (e = Error ''Could not find or use the tweet composer''
               \<or> debugOn (config c) \<and> (\<exists>m. e = BrowserError m))"
proof -
  let ?E = "Error ''Could not find or use the tweet composer''"
  let ?body = "seq (openHome D (config c) p)
                 (bnd (locateComposer D (config c) p content) (afterComposer D (config c) p))"
  from shot_then_throw [of D "config c" p "''twitter-composer-not-found.png''" ?E x2]
  obtain e1 x3 where
    shot: "seq (debugShot D (config c) p ''twitter-composer-not-found.png'')
               (throw ?E :: unit io) x2 = (Inl e1, x3)"
    and e1: "e1 = ?E \<or> debugOn (config c) \<and> (\<exists>m. e1 = BrowserError m)"
    by blast
  have "?body x
          = seq (debugShot D (config c) p ''twitter-composer-not-found.png'') (throw ?E) x2"
    using assms(5,6) by (simp add: seq_apply bnd_apply afterComposer_def)
  with shot have body: "?body x = (Inl e1, x3)"
    by (simp only:)
  let ?x4 = "x3\<lparr>logs := logs x3 @ [Err ''Error posting tweet with browser'' e1]\<rparr>"
  have post: "postTweetWithBrowser D (config c) (page c) content x = (Inl e1, ?x4)"
    using body assms(2)
    by (simp add: postTweetWithBrowser_def rethrowLogged_def catch_apply seq_apply logErr_apply
          throw_apply)
  let ?x5 = "?x4\<lparr>logs := logs ?x4 @ [Err ''Error posting tweet'' e1]\<rparr>"
  from shot_then_throw [of D "config c" p "''twitter-tweet-error.png''" e1 ?x5]
  obtain e2 x6 where
    last: "seq (debugShot D (config c) p ''twitter-tweet-error.png'')
               (throw e1 :: string io) ?x5 = (Inl e2, x6)"
    and e2: "e2 = e1 \<or> debugOn (config c) \<and> (\<exists>m. e2 = BrowserError m)"
    by blast
  have "tweet D c content replyToId x
          = seq (debugShot D (config c) p ''twitter-tweet-error.png'') (throw e1) ?x5"
    using assms(1-4) post
    by (auto simp: tweet_def tweetBody_def catch_apply seq_apply tweetFailed_def logErr_apply)
  with last have "fst (tweet D c content replyToId x) = Inl e2"
    by (simp only: fst_conv)
  with e1 e2 show ?thesis by blast
qed


theorem login_verification_witness:
  "fst (browserLogin stuckOnLogin credentials (Some 2) ''bot'' ''secret'' [] start)
     = Inl (Error ''Twitter login failed: Login failed - still on login page'')"
proof -
  let ?x1 = "snd (beforeVerify stuckOnLogin credentials 2 ''bot'' ''secret'' [] start)"
  let ?x2 = "snd (findIndicator stuckOnLogin 2 successIndicators ?x1)"
  have reached: "beforeVerify stuckOnLogin credentials 2 ''bot'' ''secret'' [] start = (Inr (), ?x1)"
    by (simp add: prod_eq_iff run login_defs stuckOnLogin_def quietDriver_def credentials_def
          start_def)
  have none: "findIndicator stuckOnLogin 2 successIndicators ?x1 = (False, ?x2)"
    by (simp add: prod_eq_iff run findIndicator_def hasElement_def successIndicators_def
          stuckOnLogin_def quietDriver_def)
  have still: "includes_str ''login'' (onUrl stuckOnLogin (calls ?x2) (Url 2))"
    by (simp add: stuckOnLogin_def quietDriver_def)
  have off: "\<not> debugOn credentials"
    by (simp add: debugOn_def credentials_def)
  from login_verification [OF reached none] still off show ?thesis
    by auto
qed

theorem tweet_composer_not_found_witness:
  "fst (tweet composerShotFails online ''hi'' None onlineExt)
     = Inl (Error ''Could not find or use the tweet composer'')"
proof -
  let ?x1 = "snd (openHome composerShotFails (config online) 2 onlineExt)"
  let ?x2 = "snd (locateComposer composerShotFails (config online) 2 ''hi'' ?x1)"
  have home: "openHome composerShotFails (config online) 2 onlineExt = (Inr False, ?x1)"
    by (simp add: prod_eq_iff run post_defs online_run constructor_def credentials_def
          composerShotFails_def quietDriver_def)
  have none: "locateComposer composerShotFails (config online) 2 ''hi'' ?x1 = (Inr False, ?x2)"
    by (simp add: prod_eq_iff run post_defs online_run constructor_def credentials_def
          composerShotFails_def quietDriver_def)
  have off: "\<not> debugOn (config online)"
    by (simp add: debugOn_def online_run constructor_def credentials_def)
  from tweet_composer_not_found [OF online_run(2,4,3) _ home none, of None] off
  show ?thesis by auto
qed

end
